theory Spec2Isabelle
  imports Main "HOL-Library.Word" "HOL-Library.Signed_Division"
begin

unbundle bit_operations_syntax

section \<open>CSP servo template (CiA-402): shallow embedding of csp\_servo\_template.c\<close>

subsection \<open>Configuration constants (section 1 of the source)\<close>

definition LOOP_PERIOD_MS :: int where "LOOP_PERIOD_MS = 1"
definition INC_STEP :: int where "INC_STEP = 300"
definition LIMIT_POS :: int where "LIMIT_POS = 200000"
definition DWELL_MS :: int where "DWELL_MS = 500"
definition RAMP_MS :: int where "RAMP_MS = 300"
definition FE_WINDOW_COUNTS :: int where "FE_WINDOW_COUNTS = 20000"
definition FE_WARN_PCT :: int where "FE_WARN_PCT = 80"
definition FAULT_COOLDOWN_MS :: int where "FAULT_COOLDOWN_MS = 250"
definition COMM_COOLDOWN_MS :: int where "COMM_COOLDOWN_MS = 0"

subsection \<open>Process image (section 3 of the source)\<close>

text \<open>
  The packed structs \<open>Drive_Inputs\<close> and \<open>Drive_Outputs\<close>. The fields are read and written
  through \<open>EC_GETWORD\<close>, \<open>EC_SETWORD\<close>, \<open>EC_GETUINT32\<close> and \<open>EC_SETUINT32\<close>, which copy 2 or 4
  bytes; a field is modelled by the machine word it holds, and the cast
  \<open>(int32_t)\<close> of a 32-bit field is \<^term>\<open>sint\<close>.
\<close>

record Drive_Inputs =
  status_word :: "16 word"
  position_actual_value :: "32 word"
  following_error_actual :: "32 word"
  error_code :: "16 word"

record Drive_Outputs =
  control_word :: "16 word"
  target_position :: "32 word"

definition DRIVE_INPUTS_BITS :: nat where "DRIVE_INPUTS_BITS = (2 + 4 + 4 + 2) * 8"
definition DRIVE_OUTPUTS_BITS :: nat where "DRIVE_OUTPUTS_BITS = (2 + 4) * 8"

subsection \<open>Observable effects\<close>

text \<open>
  What one call does to the outside, in program order: a store into a field of the
  output buffer, a log line (\<open>WARNF\<close>, \<open>DBGF\<close>), or an SDO write of \<open>ServoTemplate_Init\<close>.
\<close>

datatype effect =
    Write_control_word "16 word"
  | Write_target_position "32 word"
  | DBGF_ReadyToSwitchOn
  | DBGF_SwitchedOn
  | DBGF_OperationEnabled
  | WARNF_FE_high "32 word"
  | DBGF_FE_back "32 word"
  | WARNF_PDO_size_mismatch
  | WARNF_map_io_not_implemented
  | DBGF_PI_mapped
  | Sdo_write_u8 "16 word" "8 word" "8 word"
  | Sdo_write_u32 "16 word" "8 word" "32 word"

fun apply_effect :: "effect \<Rightarrow> Drive_Outputs \<Rightarrow> Drive_Outputs" where
  "apply_effect (Write_control_word w) out = out\<lparr>control_word := w\<rparr>"
| "apply_effect (Write_target_position v) out = out\<lparr>target_position := v\<rparr>"
| "apply_effect _ out = out"

subsection \<open>The static locals of \<open>ServoTemplate_Run\<close>\<close>

text \<open>
  The C \<open>int\<close> and \<open>long\<close> statics are modelled as \<^typ>\<open>int\<close>: they only ever hold
  small constants and countdowns (see \<open>ctx_wf\<close> below), so no arithmetic on them
  can leave the 32-bit range. The running target \<open>pos_tgt\<close> is an \<open>int32_t\<close> loaded from
  the drive and is kept as a 32-bit word; \<open>pos_tgt += delta\<close> is computed on the signed
  value and narrowed back to 32 bits (two's complement wrap-around).
\<close>

record ctx =
  st :: int
  t0 :: int
  pos_tgt :: "32 word"
  dir :: int
  dwell_rem :: int
  ramp_rem :: int
  fe_warn :: int
  fault_cool_rem :: int
  comm_cool_rem :: int
  edge :: "16 word"
  need_release :: int

text \<open>The initialisers of the statics.\<close>

definition ctx0 :: ctx where
  "ctx0 = \<lparr> st = 0, t0 = 0, pos_tgt = 0, dir = 1, dwell_rem = 0, ramp_rem = 0,
            fe_warn = 0, fault_cool_rem = 0, comm_cool_rem = COMM_COOLDOWN_MS,
            edge = 0, need_release = 0 \<rparr>"

subsection \<open>Set-point producer (lines 305--344)\<close>

text \<open>Lines 312--319: the increment of this tick and the new ramp countdown.
  C's \<open>/\<close> truncates towards zero: \<open>sdiv\<close>.\<close>

definition ramp_delta :: "int \<Rightarrow> int \<Rightarrow> int \<times> int" where
  "ramp_delta d r =
     (let delta = d * INC_STEP in
      if r > 0 then
        (let ramp_total = (if RAMP_MS > 0 then RAMP_MS else 1);
             ramp_used = ramp_total - r + 1;
             delta1 = (delta * ramp_used) sdiv ramp_total;
             delta2 = (if delta1 = 0 \<and> d \<noteq> 0 then (if d > 0 then 1 else - 1) else delta1)
         in (delta2, r - 1))
      else (delta, r))"

text \<open>Lines 323--324: the two clamps, one after the other.\<close>

definition clamp_limits :: "ctx \<Rightarrow> ctx" where
  "clamp_limits c =
     (let c1 = (if sint (pos_tgt c) > LIMIT_POS
                then c\<lparr>pos_tgt := word_of_int LIMIT_POS, dwell_rem := DWELL_MS, dir := 0\<rparr>
                else c)
      in if sint (pos_tgt c1) < - LIMIT_POS
         then c1\<lparr>pos_tgt := word_of_int (- LIMIT_POS), dwell_rem := DWELL_MS, dir := 0\<rparr>
         else c1)"

text \<open>Lines 307--325: dwell countdown, or ramped increment and clamp.\<close>

definition advance_target :: "ctx \<Rightarrow> ctx" where
  "advance_target c =
     (if dwell_rem c > 0 then
        (let c1 = c\<lparr>dwell_rem := dwell_rem c - 1\<rparr>
         in if dwell_rem c1 = 0
            then c1\<lparr>ramp_rem := RAMP_MS, dir := (if dir c1 = 0 then - 1 else dir c1)\<rparr>
            else c1)
      else
        (let (delta, r) = ramp_delta (dir c) (ramp_rem c);
             c1 = c\<lparr>ramp_rem := r, pos_tgt := word_of_int (sint (pos_tgt c) + delta)\<rparr>
         in clamp_limits c1))"

text \<open>Lines 340--344: the following-error monitor; returns the new latch and the log line.\<close>

definition fe_monitor :: "32 word \<Rightarrow> int \<Rightarrow> int \<times> effect list" where
  "fe_monitor fe_raw fw =
     (let fe = sint fe_raw;
          fe_warn_th = (FE_WINDOW_COUNTS * FE_WARN_PCT) sdiv 100;
          fe_ok_th = (FE_WINDOW_COUNTS * 40) sdiv 100
      in if fw = 0 \<and> (fe > fe_warn_th \<or> fe < - fe_warn_th) then (1, [WARNF_FE_high fe_raw])
         else if fw \<noteq> 0 \<and> (fe < fe_ok_th \<and> fe > - fe_ok_th) then (0, [DBGF_FE_back fe_raw])
         else (fw, []))"

text \<open>Lines 305--344, the body of \<open>if (now - t0 >= LOOP_PERIOD_MS)\<close> up to \<open>t0 = now\<close>,
  compiled with \<open>SETPOINT_EDGE_POLICY == 1\<close>.\<close>

definition producer :: "Drive_Inputs \<Rightarrow> ctx \<Rightarrow> ctx \<times> effect list" where
  "producer inp c =
     (let pos_prev = pos_tgt c;
          c1 = advance_target c;
          c2 = (if pos_tgt c1 \<noteq> pos_prev then c1\<lparr>edge := edge c1 XOR 0x0010\<rparr> else c1);
          (fw, logs) = fe_monitor (following_error_actual inp) (fe_warn c2)
      in (c2\<lparr>fe_warn := fw\<rparr>,
          [Write_target_position (pos_tgt c2), Write_control_word (0x000F OR edge c2)] @ logs))"

subsection \<open>The cycle function (lines 219--349)\<close>

text \<open>
  \<open>Run_cycle now inp c\<close> is the body of \<open>ServoTemplate_Run\<close> after the NULL check:
  \<open>inp\<close> is the content of the input buffer, \<open>c\<close> the statics, and \<open>now\<close> the value
  \<open>now_ms()\<close> returns in this call (every path calls it at most once).
\<close>

definition Run_cycle :: "int \<Rightarrow> Drive_Inputs \<Rightarrow> ctx \<Rightarrow> ctx \<times> effect list" where
  "Run_cycle now inp c =
     (let SW = status_word inp in
      if SW = 0 then (c\<lparr>t0 := now\<rparr>, [])
      else if SW AND 0x0008 \<noteq> 0 then
        (if need_release c = 0
         then (c\<lparr>need_release := 1\<rparr>, [Write_control_word 0x0080])
         else (c\<lparr>need_release := 0\<rparr>, [Write_control_word 0x0006]))
      else if fault_cool_rem c > 0 then
        (if now - t0 c \<ge> 1
         then (c\<lparr>fault_cool_rem := fault_cool_rem c - 1, t0 := now\<rparr>, [Write_control_word 0x0006])
         else (c, [Write_control_word 0x0006]))
      else if comm_cool_rem c > 0 then
        (if now - t0 c \<ge> 1
         then (c\<lparr>comm_cool_rem := comm_cool_rem c - 1, t0 := now\<rparr>, [Write_control_word 0x0006])
         else (c, [Write_control_word 0x0006]))
      else if SW AND 0x0040 \<noteq> 0 then (c\<lparr>st := 0\<rparr>, [Write_control_word 0x0006])
      else if st c = 0 then
        (if SW AND 0x006F = 0x0021
         then (c\<lparr>st := 1\<rparr>, [Write_control_word 0x0006, DBGF_ReadyToSwitchOn])
         else (c, [Write_control_word 0x0006]))
      else if st c = 1 then
        (if SW AND 0x006F = 0x0023
         then (c\<lparr>st := 2\<rparr>, [Write_control_word 0x0007, DBGF_SwitchedOn])
         else (c, [Write_control_word 0x0007]))
      else if st c = 2 then
        (let pos_act = position_actual_value inp;
             c1 = c\<lparr>pos_tgt := pos_act\<rparr>;
             ws = [Write_target_position (pos_tgt c1), Write_control_word 0x000F]
         in if SW AND 0x006F = 0x0027
            then (c1\<lparr>st := 3, t0 := now, ramp_rem := RAMP_MS\<rparr>, ws @ [DBGF_OperationEnabled])
            else (c1, ws))
      else if st c = 3 then
        (if now - t0 c \<ge> LOOP_PERIOD_MS
         then (let (c1, effs) = producer inp c in (c1\<lparr>t0 := now\<rparr>, effs))
         else (c, []))
      else (c, []))"

subsection \<open>Globals, \<open>ServoTemplate_Run\<close> and \<open>ServoTemplate_Init\<close>\<close>

text \<open>
  The globals \<open>g_in\<close> and \<open>g_out\<close> are pointers into the process image: \<open>None\<close> is \<open>NULL\<close>,
  \<open>Some b\<close> a pointer to a buffer that currently holds \<open>b\<close>.
\<close>

record world =
  g_in :: "Drive_Inputs option"
  g_out :: "Drive_Outputs option"
  statics :: ctx

definition ServoTemplate_Run :: "int \<Rightarrow> world \<Rightarrow> world \<times> effect list" where
  "ServoTemplate_Run now w =
     (case (g_in w, g_out w) of
        (Some inp, Some out) \<Rightarrow>
          (let (c, effs) = Run_cycle now inp (statics w)
           in (w\<lparr>statics := c, g_out := Some (fold apply_effect effs out)\<rparr>, effs))
      | _ \<Rightarrow> (w, []))"

text \<open>
  \<open>map_io\<close> is the integration hook the source leaves to the EtherCAT master: from the two
  bit offsets it yields a status and the two pointers it has stored through \<open>&g_in\<close> and
  \<open>&g_out\<close>. \<open>map_io_stub\<close> is the body the source ships. The handles \<open>dev\<close> and
  \<open>slave_index\<close> are only handed on to \<open>map_io\<close> and to the SDO stubs (which ignore them and
  return 0), so they are left out.
\<close>

type_synonym map_io_fn =
  "nat \<Rightarrow> nat \<Rightarrow> int \<times> Drive_Inputs option \<times> Drive_Outputs option"

definition map_io_stub :: map_io_fn where
  "map_io_stub in_off_bits out_off_bits = (- 1, None, None)"

definition ServoTemplate_Init ::
  "map_io_fn \<Rightarrow> nat \<Rightarrow> nat \<Rightarrow> nat \<Rightarrow> nat \<Rightarrow> world \<Rightarrow> int \<times> world \<times> effect list" where
  "ServoTemplate_Init map_io eni_in_bits eni_out_bits eni_in_off_bits eni_out_off_bits w =
     (let warn = (if eni_in_bits \<noteq> DRIVE_INPUTS_BITS \<or> eni_out_bits \<noteq> DRIVE_OUTPUTS_BITS
                  then [WARNF_PDO_size_mismatch] else []);
          (rc, pin, pout) = map_io eni_in_off_bits eni_out_off_bits;
          w1 = w\<lparr>g_in := pin, g_out := pout\<rparr>;
          (w2, logs) = (if rc \<noteq> 0
                        then (w1\<lparr>g_in := None, g_out := None\<rparr>, [WARNF_map_io_not_implemented])
                        else (w1, [DBGF_PI_mapped]));
          sdos = [Sdo_write_u8 0x6060 0 8,
                  Sdo_write_u32 0x60C2 1 (word_of_int (LOOP_PERIOD_MS * 1000)),
                  Sdo_write_u32 0x6065 0 (word_of_int FE_WINDOW_COUNTS)]
      in (0, w2, warn @ logs @ sdos))"

subsection \<open>Running a trace of ticks\<close>

text \<open>One tick of the environment: the clock reading of this call and the content the
  bus has put into the input buffer.\<close>

type_synonym tick = "int \<times> Drive_Inputs"

fun run_ticks :: "ctx \<Rightarrow> tick list \<Rightarrow> (ctx \<times> effect list) list" where
  "run_ticks c [] = []"
| "run_ticks c ((now, inp) # ts) =
     (let r = Run_cycle now inp c in r # run_ticks (fst r) ts)"

fun ctx_after :: "ctx \<Rightarrow> tick list \<Rightarrow> ctx" where
  "ctx_after c [] = c"
| "ctx_after c ((now, inp) # ts) = ctx_after (fst (Run_cycle now inp c)) ts"

text \<open>Successive calls of \<open>ServoTemplate_Run\<close>, given the clock reading of each.\<close>

fun Run_calls :: "world \<Rightarrow> int list \<Rightarrow> world \<times> effect list" where
  "Run_calls w [] = (w, [])"
| "Run_calls w (now # nows) =
     (let (w1, e1) = ServoTemplate_Run now w;
          (w2, e2) = Run_calls w1 nows
      in (w2, e1 @ e2))"


text \<open>Successive producer ticks (the body of the period gate), given the input buffer
  content of each.\<close>

fun producer_ticks :: "ctx \<Rightarrow> Drive_Inputs list \<Rightarrow> ctx \<times> effect list" where
  "producer_ticks c [] = (c, [])"
| "producer_ticks c (inp # inps) =
     (let (c1, e1) = producer inp c;
          (c2, e2) = producer_ticks c1 inps
      in (c2, e1 @ e2))"

text \<open>Input buffers with no following error, and the trace of a healthy drive: the three
  status words of the enable sequence at times 1, 2, 3 with the axis standing at \<open>p\<close>, then
  \<open>Operation enabled\<close> held with one call per millisecond.\<close>

definition drive_in :: "16 word \<Rightarrow> 32 word \<Rightarrow> Drive_Inputs" where
  "drive_in sw p = \<lparr>status_word = sw, position_actual_value = p,
                    following_error_actual = 0, error_code = 0\<rparr>"

definition fe_in :: "32 word \<Rightarrow> Drive_Inputs" where
  "fe_in v = \<lparr>status_word = 0x0027, position_actual_value = 0,
              following_error_actual = v, error_code = 0\<rparr>"

definition run_in :: Drive_Inputs where
  "run_in = drive_in 0x0027 0"

definition enable_at :: "32 word \<Rightarrow> tick list" where
  "enable_at p = [(1, drive_in 0x0021 0), (2, drive_in 0x0023 0), (3, drive_in 0x0027 p)]"

fun steady :: "int \<Rightarrow> nat \<Rightarrow> tick list" where
  "steady n 0 = []"
| "steady n (Suc k) = (n + 1, run_in) # steady (n + 1) k"

subsection \<open>Vocabulary of the properties\<close>

text \<open>The range of values the statics take: what justifies \<^typ>\<open>int\<close> for the C \<open>int\<close>s.\<close>

definition ctx_wf :: "ctx \<Rightarrow> bool" where
  "ctx_wf c \<longleftrightarrow>
     0 \<le> st c \<and> st c \<le> 3 \<and> - 1 \<le> dir c \<and> dir c \<le> 1 \<and>
     0 \<le> dwell_rem c \<and> dwell_rem c \<le> DWELL_MS \<and>
     0 \<le> ramp_rem c \<and> ramp_rem c \<le> RAMP_MS \<and>
     0 \<le> fe_warn c \<and> fe_warn c \<le> 1 \<and> 0 \<le> need_release c \<and> need_release c \<le> 1 \<and>
     fault_cool_rem c = 0 \<and> comm_cool_rem c = 0 \<and>
     (edge c = 0 \<or> edge c = 0x0010) \<and> (dir c = 0 \<longrightarrow> dwell_rem c > 0)"

text \<open>A target within the software limits.\<close>

definition in_limits :: "32 word \<Rightarrow> bool" where
  "in_limits v \<longleftrightarrow> - LIMIT_POS \<le> sint v \<and> sint v \<le> LIMIT_POS"


text \<open>The path condition of a producer tick: no guard fires, the stage is Running and
  the loop period has elapsed.\<close>

definition running_tick :: "int \<Rightarrow> Drive_Inputs \<Rightarrow> ctx \<Rightarrow> bool" where
  "running_tick now inp c \<longleftrightarrow>
     status_word inp \<noteq> 0 \<and> status_word inp AND 0x0008 = 0 \<and>
     fault_cool_rem c \<le> 0 \<and> comm_cool_rem c \<le> 0 \<and>
     status_word inp AND 0x0040 = 0 \<and> st c = 3 \<and> now - t0 c \<ge> LOOP_PERIOD_MS"

text \<open>The log lines of the following-error monitor, its thresholds (lines 341--342) and
  the magnitude of the following error in an input buffer.\<close>

fun is_fe_event :: "effect \<Rightarrow> bool" where
  "is_fe_event (WARNF_FE_high _) = True"
| "is_fe_event (DBGF_FE_back _) = True"
| "is_fe_event _ = False"

definition fe_warn_th :: int where
  "fe_warn_th = (FE_WINDOW_COUNTS * FE_WARN_PCT) div 100"

definition fe_ok_th :: int where
  "fe_ok_th = (FE_WINDOW_COUNTS * 40) div 100"

definition fe_abs :: "Drive_Inputs \<Rightarrow> int" where
  "fe_abs inp = \<bar>sint (following_error_actual inp)\<bar>"

text \<open>The control words a call has written, in order.\<close>

fun cw_writes :: "effect list \<Rightarrow> 16 word list" where
  "cw_writes [] = []"
| "cw_writes (Write_control_word w # es) = w # cw_writes es"
| "cw_writes (_ # es) = cw_writes es"

text \<open>The motion part of the statics in the Running stage with no cooldown and no
  following-error warning: last tick at \<open>n\<close>, target \<open>x\<close>, direction \<open>d\<close>, dwell countdown
  \<open>dw\<close>, ramp countdown \<open>r\<close>.\<close>

definition running_at :: "ctx \<Rightarrow> int \<Rightarrow> int \<Rightarrow> int \<Rightarrow> int \<Rightarrow> int \<Rightarrow> bool" where
  "running_at c n x d dw r \<longleftrightarrow>
     st c = 3 \<and> fault_cool_rem c = 0 \<and> comm_cool_rem c = 0 \<and> fe_warn c = 0 \<and>
     t0 c = n \<and> sint (pos_tgt c) = x \<and> dir c = d \<and> dwell_rem c = dw \<and> ramp_rem c = r"

text \<open>The distance covered by \<open>k\<close> ramped ticks that start with ramp countdown \<open>r\<close>.\<close>

fun ramp_sum :: "int \<Rightarrow> nat \<Rightarrow> int" where
  "ramp_sum r 0 = 0"
| "ramp_sum r (Suc k) = (RAMP_MS - r + 1) + ramp_sum (r - 1) k"

text \<open>The target sits on the lower limit, either dwelling or about to step further down.\<close>

definition pinned_low :: "ctx \<Rightarrow> int \<Rightarrow> bool" where
  "pinned_low c n \<longleftrightarrow>
     (\<exists>dw r. running_at c n (- LIMIT_POS) 0 dw r \<and> 1 \<le> dw) \<or>
     (\<exists>r. running_at c n (- LIMIT_POS) (- 1) 0 r \<and> 0 \<le> r \<and> r \<le> RAMP_MS)"

subsection \<open>Reference values used for concrete checks\<close>

definition w_mapped0 :: world where
  "w_mapped0 = \<lparr> g_in = Some \<lparr>status_word = 0, position_actual_value = 1000,
                               following_error_actual = 0, error_code = 0\<rparr>,
                 g_out = Some \<lparr>control_word = 0, target_position = 0\<rparr>,
                 statics = ctx0 \<rparr>"

definition w_unmapped0 :: world where
  "w_unmapped0 = \<lparr> g_in = None, g_out = None, statics = ctx0 \<rparr>"

definition fault_glitch_trace :: "tick list" where
  "fault_glitch_trace =
     [(1, drive_in 0x0021 0), (2, drive_in 0x0008 0), (3, drive_in 0x0023 0),
      (4, drive_in 0x0008 0), (5, drive_in 0x0008 0)]"



definition c_ramp :: ctx where
  "c_ramp = \<lparr> st = 3, t0 = 14, pos_tgt = 1000, dir = 1, dwell_rem = 0, ramp_rem = 300,
            fe_warn = 0, fault_cool_rem = 0, comm_cool_rem = 0, edge = 0, need_release = 0 \<rparr>"

section \<open>Properties\<close>

lemmas knobs = LOOP_PERIOD_MS_def INC_STEP_def LIMIT_POS_def DWELL_MS_def RAMP_MS_def
  FE_WINDOW_COUNTS_def FE_WARN_PCT_def FAULT_COOLDOWN_MS_def COMM_COOLDOWN_MS_def

subsection \<open>The statics stay in range\<close>

lemma ctx_wf_ctx0: "ctx_wf ctx0"
  by (simp add: ctx_wf_def ctx0_def knobs)

lemma ramp_delta_rem:
  "0 \<le> r \<Longrightarrow> r \<le> RAMP_MS \<Longrightarrow> 0 \<le> snd (ramp_delta d r) \<and> snd (ramp_delta d r) \<le> RAMP_MS"
  by (simp add: ramp_delta_def Let_def knobs)

lemma ctx_wf_clamp: "ctx_wf c \<Longrightarrow> ctx_wf (clamp_limits c)"
  by (simp add: ctx_wf_def clamp_limits_def Let_def knobs)

lemma ctx_wf_advance: "ctx_wf c \<Longrightarrow> ctx_wf (advance_target c)"
proof (cases "dwell_rem c > 0")
  case True
  assume "ctx_wf c"
  with True show ?thesis
    by (simp add: ctx_wf_def advance_target_def Let_def knobs)
next
  case False
  assume wf: "ctx_wf c"
  obtain delta r where dr: "ramp_delta (dir c) (ramp_rem c) = (delta, r)" by force
  have "0 \<le> r \<and> r \<le> RAMP_MS"
    using ramp_delta_rem[of "ramp_rem c" "dir c"] wf dr by (simp add: ctx_wf_def)
  then have "ctx_wf (c\<lparr>ramp_rem := r, pos_tgt := word_of_int (sint (pos_tgt c) + delta)\<rparr>)"
    using wf by (simp add: ctx_wf_def)
  then show ?thesis using False dr
    by (simp add: advance_target_def ctx_wf_clamp)
qed

lemma edge_flip: "(e::16 word) = 0 \<or> e = 0x10 \<Longrightarrow> e XOR 0x10 = 0 \<or> e XOR 0x10 = 0x10"
  by auto

lemma ctx_wf_producer: "ctx_wf c \<Longrightarrow> ctx_wf (fst (producer inp c))"
proof -
  assume "ctx_wf c"
  then have a: "ctx_wf (advance_target c)" by (rule ctx_wf_advance)
  then have e: "edge (advance_target c) XOR 0x10 = 0 \<or> edge (advance_target c) XOR 0x10 = 0x10"
    using edge_flip by (simp add: ctx_wf_def)
  show ?thesis using a e
    by (simp add: producer_def Let_def ctx_wf_def fe_monitor_def split: prod.splits)
qed

lemma ctx_wf_Run_cycle: "ctx_wf c \<Longrightarrow> ctx_wf (fst (Run_cycle now inp c))"
proof -
  assume wf: "ctx_wf c"
  obtain c1 effs where p: "producer inp c = (c1, effs)" by force
  have "ctx_wf c1" using ctx_wf_producer[OF wf, of inp] p by simp
  then have "ctx_wf (c1\<lparr>t0 := now\<rparr>)" by (simp add: ctx_wf_def)
  with wf p show ?thesis
    by (simp add: Run_cycle_def Let_def ctx_wf_def knobs)
qed

lemma ctx_wf_ctx_after: "ctx_wf c \<Longrightarrow> ctx_wf (ctx_after c ticks)"
  by (induction c ticks rule: ctx_after.induct) (simp_all add: ctx_wf_Run_cycle)

subsection \<open>Unmapped buffers\<close>

lemma Run_unmapped: "g_in w = None \<or> g_out w = None \<Longrightarrow> ServoTemplate_Run now w = (w, [])"
  by (auto simp: ServoTemplate_Run_def split: option.splits)

lemma Run_calls_unmapped: "g_in w = None \<or> g_out w = None \<Longrightarrow> Run_calls w nows = (w, [])"
  by (induction nows) (simp_all add: Run_unmapped)

subsection \<open>C9: comm-loss guard\<close>

text \<open>
  C9. On a tick where the status word reads \<open>0x0000\<close> (buffers mapped), the call only
  stores the clock reading into \<open>t0\<close>: it has no effect on the outside (no field of the
  output buffer is written, nothing is logged), the output buffer and both pointers are
  as before, and every other static is unchanged.
\<close>

theorem comm_loss_guard_frame:
  assumes "g_in w = Some inp" and "g_out w = Some out" and "status_word inp = 0"
  shows "ServoTemplate_Run now w = (w\<lparr>statics := (statics w)\<lparr>t0 := now\<rparr>\<rparr>, [])"
  using assms by (simp add: ServoTemplate_Run_def Run_cycle_def)

theorem comm_loss_guard_frame_witness:
  "g_in w_mapped0 = Some \<lparr>status_word = 0, position_actual_value = 1000,
                          following_error_actual = 0, error_code = 0\<rparr>
   \<and> g_out w_mapped0 = Some \<lparr>control_word = 0, target_position = 0\<rparr>
   \<and> ServoTemplate_Run 7 w_mapped0 = (w_mapped0\<lparr>statics := ctx0\<lparr>t0 := 7\<rparr>\<rparr>, [])"
proof -
  have i: "g_in w_mapped0 = Some \<lparr>status_word = 0, position_actual_value = 1000,
                          following_error_actual = 0, error_code = 0\<rparr>"
    by (simp add: w_mapped0_def)
  have o: "g_out w_mapped0 = Some \<lparr>control_word = 0, target_position = 0\<rparr>"
    by (simp add: w_mapped0_def)
  have s: "status_word \<lparr>status_word = 0, position_actual_value = 1000,
                          following_error_actual = 0, error_code = 0\<rparr> = 0" by simp
  have "statics w_mapped0 = ctx0" by (simp add: w_mapped0_def)
  with comm_loss_guard_frame [OF i o s, of 7] i o show ?thesis by simp
qed

subsection \<open>C10: initialisation never fails\<close>

text \<open>
  C10. \<open>ServoTemplate_Init\<close> returns 0 whatever \<open>map_io\<close> does and whatever sizes are
  passed; a size mismatch only logs a warning. When \<open>map_io\<close> reports failure both
  global pointers are \<open>NULL\<close> afterwards, and then any number of calls of
  \<open>ServoTemplate_Run\<close> leave the globals and statics as they are and have no effect.
\<close>

theorem Init_returns_0:
  "fst (ServoTemplate_Init map_io ib ob io oo w) = 0 \<and>
   ((ib \<noteq> DRIVE_INPUTS_BITS \<or> ob \<noteq> DRIVE_OUTPUTS_BITS) \<longrightarrow>
      WARNF_PDO_size_mismatch \<in> set (snd (snd (ServoTemplate_Init map_io ib ob io oo w)))) \<and>
   (fst (map_io io oo) \<noteq> 0 \<longrightarrow>
      g_in (fst (snd (ServoTemplate_Init map_io ib ob io oo w))) = None \<and>
      g_out (fst (snd (ServoTemplate_Init map_io ib ob io oo w))) = None \<and>
      Run_calls (fst (snd (ServoTemplate_Init map_io ib ob io oo w))) nows
        = (fst (snd (ServoTemplate_Init map_io ib ob io oo w)), []))"
proof -
  obtain rc pin pout where m: "map_io io oo = (rc, pin, pout)"
    by (cases "map_io io oo") auto
  have r: "fst (ServoTemplate_Init map_io ib ob io oo w) = 0"
    by (simp add: ServoTemplate_Init_def Let_def m)
  have wn: "(ib \<noteq> DRIVE_INPUTS_BITS \<or> ob \<noteq> DRIVE_OUTPUTS_BITS) \<longrightarrow>
      WARNF_PDO_size_mismatch \<in> set (snd (snd (ServoTemplate_Init map_io ib ob io oo w)))"
    by (simp add: ServoTemplate_Init_def Let_def m)
  have f: "rc \<noteq> 0 \<longrightarrow> g_in (fst (snd (ServoTemplate_Init map_io ib ob io oo w))) = None \<and>
      g_out (fst (snd (ServoTemplate_Init map_io ib ob io oo w))) = None"
    by (simp add: ServoTemplate_Init_def Let_def m)
  from r wn f show ?thesis
    by (simp add: m Run_calls_unmapped)
qed

theorem Init_returns_0_witness:
  "fst (map_io_stub 0 0) \<noteq> 0 \<and> (95::nat) \<noteq> DRIVE_INPUTS_BITS \<and>
   ServoTemplate_Init map_io_stub 95 48 0 0 w_mapped0 =
     (0, w_unmapped0, [WARNF_PDO_size_mismatch, WARNF_map_io_not_implemented,
        Sdo_write_u8 0x6060 0 8, Sdo_write_u32 0x60C2 1 1000, Sdo_write_u32 0x6065 0 20000]) \<and>
   Run_calls w_unmapped0 [1, 2, 3] = (w_unmapped0, [])"
proof -
  have a: "fst (map_io_stub 0 0) \<noteq> 0" by (simp add: map_io_stub_def)
  have b: "(95::nat) \<noteq> DRIVE_INPUTS_BITS" by (simp add: DRIVE_INPUTS_BITS_def)
  have c: "ServoTemplate_Init map_io_stub 95 48 0 0 w_mapped0 =
     (0, w_unmapped0, [WARNF_PDO_size_mismatch, WARNF_map_io_not_implemented,
        Sdo_write_u8 0x6060 0 8, Sdo_write_u32 0x60C2 1 1000, Sdo_write_u32 0x6065 0 20000])"
    by (simp add: ServoTemplate_Init_def map_io_stub_def w_mapped0_def w_unmapped0_def
        DRIVE_INPUTS_BITS_def DRIVE_OUTPUTS_BITS_def knobs)
  from Init_returns_0 [of map_io_stub 95 48 0 0 w_mapped0 "[1, 2, 3]"] a b c
  show ?thesis by simp
qed

subsection \<open>Arithmetic of the ramp and of 32-bit targets\<close>

lemma sint_word_of_int_32:
  "- (2 ^ 31) \<le> x \<Longrightarrow> x < 2 ^ 31 \<Longrightarrow> sint (word_of_int x :: 32 word) = x"
  by (simp add: sint_sbintrunc' signed_take_bit_int_eq_self)

lemma sint_succ:
  assumes "- LIMIT_POS \<le> sint (p::32 word)" and "sint p < LIMIT_POS"
  shows "sint (p + 1) = sint p + 1"
proof -
  have "sint (word_of_int (sint p + 1) :: 32 word) = sint p + 1"
    using assms by (intro sint_word_of_int_32) (simp_all add: knobs)
  then show ?thesis by simp
qed

lemma ramp_up: "0 < r \<Longrightarrow> r \<le> RAMP_MS \<Longrightarrow> ramp_delta 1 r = (RAMP_MS - r + 1, r - 1)"
  by (simp add: ramp_delta_def Let_def knobs signed_divide_int_def)

lemma ramp_down:
  "0 < r \<Longrightarrow> r \<le> RAMP_MS \<Longrightarrow> ramp_delta (- 1) r = (- (RAMP_MS - r + 1), r - 1)"
  by (simp add: ramp_delta_def Let_def knobs signed_divide_int_def)

lemma ramp_over: "r \<le> 0 \<Longrightarrow> ramp_delta d r = (d * INC_STEP, r)"
  by (simp add: ramp_delta_def Let_def knobs)

lemma ramp_pm:
  "d = 1 \<or> d = - 1 \<Longrightarrow> 0 < r \<Longrightarrow> r \<le> RAMP_MS \<Longrightarrow>
   ramp_delta d r = (d * (RAMP_MS - r + 1), r - 1)"
  using ramp_up[of r] ramp_down[of r] by auto

lemma ramp_abs:
  "d = 1 \<or> d = - 1 \<Longrightarrow> 0 \<le> r \<Longrightarrow> r \<le> RAMP_MS \<Longrightarrow>
   \<bar>fst (ramp_delta d r)\<bar> = (if r = 0 then INC_STEP else RAMP_MS - r + 1)"
  using ramp_pm[of d r] ramp_over[of r d] by (auto simp: knobs abs_mult)

lemma advance_frame:
  "st (advance_target c) = st c \<and> t0 (advance_target c) = t0 c \<and>
   fe_warn (advance_target c) = fe_warn c \<and> fault_cool_rem (advance_target c) = fault_cool_rem c \<and>
   comm_cool_rem (advance_target c) = comm_cool_rem c \<and> edge (advance_target c) = edge c \<and>
   need_release (advance_target c) = need_release c"
  by (simp add: advance_target_def clamp_limits_def Let_def split: prod.splits)

lemma ramp_rem_clamp: "ramp_rem (clamp_limits c) = ramp_rem c"
  by (simp add: clamp_limits_def Let_def)

subsection \<open>The enable sequence, tick by tick\<close>

lemma enable_tick0: "Run_cycle n0 (drive_in 0 p0) ctx0 = (ctx0\<lparr>t0 := n0\<rparr>, [])"
  by (simp add: Run_cycle_def drive_in_def)

lemma enable_tick1:
  "Run_cycle n1 (drive_in 0x21 p1) (ctx0\<lparr>t0 := n0\<rparr>)
     = (ctx0\<lparr>t0 := n0, st := 1\<rparr>, [Write_control_word 0x0006, DBGF_ReadyToSwitchOn])"
  by (simp add: Run_cycle_def drive_in_def ctx0_def knobs)

lemma enable_tick2:
  "Run_cycle n2 (drive_in 0x23 p2) (ctx0\<lparr>t0 := n0, st := 1\<rparr>)
     = (ctx0\<lparr>t0 := n0, st := 2\<rparr>, [Write_control_word 0x0007, DBGF_SwitchedOn])"
  by (simp add: Run_cycle_def drive_in_def ctx0_def knobs)

lemma enable_tick3:
  "Run_cycle n3 (drive_in 0x23 p) (ctx0\<lparr>t0 := n0, st := 2\<rparr>)
     = (ctx0\<lparr>t0 := n0, st := 2, pos_tgt := p\<rparr>,
        [Write_target_position p, Write_control_word 0x000F])"
  by (simp add: Run_cycle_def drive_in_def ctx0_def knobs)

lemma enable_tick4:
  "Run_cycle n4 (drive_in 0x27 p) (ctx0\<lparr>t0 := n0, st := 2, pos_tgt := q\<rparr>)
     = (ctx0\<lparr>t0 := n4, st := 3, pos_tgt := p, ramp_rem := RAMP_MS\<rparr>,
        [Write_target_position p, Write_control_word 0x000F, DBGF_OperationEnabled])"
  by (simp add: Run_cycle_def drive_in_def ctx0_def knobs)

lemma enable_tick5:
  assumes "- LIMIT_POS \<le> sint p" and "sint p < LIMIT_POS" and "n5 - n4 \<ge> LOOP_PERIOD_MS"
  shows "Run_cycle n5 (drive_in 0x27 q) (ctx0\<lparr>t0 := n4, st := 3, pos_tgt := p, ramp_rem := RAMP_MS\<rparr>)
     = (ctx0\<lparr>t0 := n5, st := 3, pos_tgt := p + 1, ramp_rem := RAMP_MS - 1, edge := 0x10\<rparr>,
        [Write_target_position (p + 1), Write_control_word 0x1F])"
proof -
  have r: "ramp_delta 1 RAMP_MS = (1, RAMP_MS - 1)"
    using ramp_up[of RAMP_MS] by (simp add: knobs)
  have s: "sint (p + 1) = sint p + 1" using assms by (simp add: sint_succ)
  have a: "advance_target (ctx0\<lparr>t0 := n4, st := 3, pos_tgt := p, ramp_rem := RAMP_MS\<rparr>)
      = ctx0\<lparr>t0 := n4, st := 3, pos_tgt := p + 1, ramp_rem := RAMP_MS - 1\<rparr>"
    using assms s by (simp add: advance_target_def clamp_limits_def ctx0_def r Let_def)
  have pr: "producer (drive_in 0x27 q) (ctx0\<lparr>t0 := n4, st := 3, pos_tgt := p, ramp_rem := RAMP_MS\<rparr>)
      = (ctx0\<lparr>t0 := n4, st := 3, pos_tgt := p + 1, ramp_rem := RAMP_MS - 1, edge := 0x10\<rparr>,
        [Write_target_position (p + 1), Write_control_word 0x1F])"
    unfolding producer_def a Let_def
    by (simp add: fe_monitor_def drive_in_def ctx0_def knobs)
  have g: "status_word (drive_in 0x27 q) = 0x27" by (simp add: drive_in_def)
  show ?thesis using assms(3)
    unfolding Run_cycle_def Let_def pr g
    by (simp add: ctx0_def COMM_COOLDOWN_MS_def)
qed

text \<open>The same first steps when no tick with status word 0 came before.\<close>

lemma ready_tick:
  "Run_cycle n (drive_in 0x21 p) ctx0
     = (ctx0\<lparr>st := 1\<rparr>, [Write_control_word 0x0006, DBGF_ReadyToSwitchOn])"
  by (simp add: Run_cycle_def drive_in_def ctx0_def knobs)

lemma switched_on_tick:
  "Run_cycle n (drive_in 0x23 p) (ctx0\<lparr>st := 1\<rparr>)
     = (ctx0\<lparr>st := 2\<rparr>, [Write_control_word 0x0007, DBGF_SwitchedOn])"
  by (simp add: Run_cycle_def drive_in_def ctx0_def knobs)


lemma enabled_tick:
  "Run_cycle n (drive_in 0x27 p) (ctx0\<lparr>st := 2\<rparr>)
     = (ctx0\<lparr>st := 3, t0 := n, pos_tgt := p, ramp_rem := RAMP_MS\<rparr>,
        [Write_target_position p, Write_control_word 0x000F, DBGF_OperationEnabled])"
  by (simp add: Run_cycle_def drive_in_def ctx0_def knobs)

subsection \<open>C5: the enable-sequence scenario\<close>

text \<open>
  C5. From the initial statics: a tick with status word \<open>0x0000\<close> does nothing but note the
  time; \<open>0x0021\<close> writes control word \<open>0x0006\<close> and moves the stage from Shutdown (0) to
  SwitchingOn (1); \<open>0x0023\<close> writes \<open>0x0007\<close> and moves to Aligning (2); in Aligning the
  running target is set to the actual position \<open>p\<close> and written, with control word
  \<open>0x000F\<close>; \<open>0x0027\<close> moves to Running (3) and arms the ramp with \<open>RAMP_MS\<close>; the first
  target produced in Running (once a loop period has elapsed) is \<open>p + 1\<close>: it differs
  from \<open>p\<close> by 1, a positive delta below \<open>INC_STEP\<close>. Here \<open>p\<close> is any position inside
  the software limits (the spec's example is 1000).
\<close>

theorem enable_sequence_scenario:
  assumes "- LIMIT_POS \<le> sint p" and "sint p < LIMIT_POS" and "n5 - n4 \<ge> LOOP_PERIOD_MS"
  shows "run_ticks ctx0
           [(n0, drive_in 0x0000 p0), (n1, drive_in 0x0021 p1), (n2, drive_in 0x0023 p2),
            (n3, drive_in 0x0023 p), (n4, drive_in 0x0027 p), (n5, drive_in 0x0027 p5)]
         = [(ctx0\<lparr>t0 := n0\<rparr>, []),
            (ctx0\<lparr>t0 := n0, st := 1\<rparr>, [Write_control_word 0x0006, DBGF_ReadyToSwitchOn]),
            (ctx0\<lparr>t0 := n0, st := 2\<rparr>, [Write_control_word 0x0007, DBGF_SwitchedOn]),
            (ctx0\<lparr>t0 := n0, st := 2, pos_tgt := p\<rparr>,
               [Write_target_position p, Write_control_word 0x000F]),
            (ctx0\<lparr>t0 := n4, st := 3, pos_tgt := p, ramp_rem := RAMP_MS\<rparr>,
               [Write_target_position p, Write_control_word 0x000F, DBGF_OperationEnabled]),
            (ctx0\<lparr>t0 := n5, st := 3, pos_tgt := p + 1, ramp_rem := RAMP_MS - 1, edge := 0x0010\<rparr>,
               [Write_target_position (p + 1), Write_control_word 0x001F])]
         \<and> sint (p + 1) - sint p = 1 \<and> (1::int) < INC_STEP"
proof -
  note s5 = enable_tick5[OF assms, of p5]
  have "sint (p + 1) - sint p = 1" using assms by (simp add: sint_succ)
  then show ?thesis
    by (simp add: enable_tick0 enable_tick1 enable_tick2 enable_tick3 enable_tick4 s5)
       (simp add: knobs)
qed

theorem enable_sequence_scenario_witness:
  "- LIMIT_POS \<le> sint (1000 :: 32 word) \<and> sint (1000 :: 32 word) < LIMIT_POS \<and>
   (15::int) - 14 \<ge> LOOP_PERIOD_MS \<and>
   run_ticks ctx0
     [(10, drive_in 0x0000 0), (11, drive_in 0x0021 0), (12, drive_in 0x0023 0),
      (13, drive_in 0x0023 1000), (14, drive_in 0x0027 1000), (15, drive_in 0x0027 1000)]
   = [(ctx0\<lparr>t0 := 10\<rparr>, []),
      (ctx0\<lparr>t0 := 10, st := 1\<rparr>, [Write_control_word 0x0006, DBGF_ReadyToSwitchOn]),
      (ctx0\<lparr>t0 := 10, st := 2\<rparr>, [Write_control_word 0x0007, DBGF_SwitchedOn]),
      (ctx0\<lparr>t0 := 10, st := 2, pos_tgt := 1000\<rparr>,
         [Write_target_position 1000, Write_control_word 0x000F]),
      (ctx0\<lparr>t0 := 14, st := 3, pos_tgt := 1000, ramp_rem := 300\<rparr>,
         [Write_target_position 1000, Write_control_word 0x000F, DBGF_OperationEnabled]),
      (ctx0\<lparr>t0 := 15, st := 3, pos_tgt := 1001, ramp_rem := 299, edge := 0x0010\<rparr>,
         [Write_target_position 1001, Write_control_word 0x001F])]"
proof -
  have h: "- LIMIT_POS \<le> sint (1000 :: 32 word)" "sint (1000 :: 32 word) < LIMIT_POS"
    "(15::int) - 14 \<ge> LOOP_PERIOD_MS"
    by (simp_all add: knobs)
  from enable_sequence_scenario [OF h, of 10 0 11 0 12 0 13 1000] h
  show ?thesis by (simp add: knobs)
qed

subsection \<open>C1: which writes of the target are clamped\<close>



lemma producer_target:
  "pos_tgt (fst (producer inp c)) = pos_tgt (advance_target c) \<and>
   (Write_target_position v \<in> set (snd (producer inp c))) = (v = pos_tgt (advance_target c))"
  by (auto simp: producer_def Let_def fe_monitor_def split: prod.splits)







subsection \<open>C6: the ramp\<close>

text \<open>
  C6. In every state within the range of the statics, on a producer tick with no dwell
  and an active ramp countdown \<open>r > 0\<close>: the direction is \<open>+1\<close> or \<open>-1\<close>; the increment
  added to the running target is \<open>dir * INC_STEP * used / RAMP_MS\<close> with
  \<open>used = RAMP_MS - r + 1\<close> ticks elapsed (1 on the first ramp tick, \<open>RAMP_MS\<close> on the
  last), replaced by \<open>dir\<close> if that quotient is 0; its magnitude is \<open>used\<close>, at least 1;
  the countdown goes down by one and, unless the limit clamp fires, the target moves by
  the increment and the direction is kept; the magnitude of the next tick's increment is
  not smaller; and the magnitude equals the full step \<open>INC_STEP\<close> exactly on the tick that
  brings the countdown to 0, as does every increment after the ramp.
\<close>

theorem ramp_monotonicity:
  assumes "ctx_wf c" and "dwell_rem c = 0" and "0 < ramp_rem c"
  shows "(dir c = 1 \<or> dir c = - 1) \<and>
         advance_target c =
           clamp_limits (c\<lparr>ramp_rem := ramp_rem c - 1,
              pos_tgt := word_of_int (sint (pos_tgt c) + fst (ramp_delta (dir c) (ramp_rem c)))\<rparr>) \<and>
         fst (ramp_delta (dir c) (ramp_rem c)) =
           (let scaled = (dir c * INC_STEP * (RAMP_MS - ramp_rem c + 1)) sdiv RAMP_MS
            in if scaled = 0 then dir c else scaled) \<and>
         \<bar>fst (ramp_delta (dir c) (ramp_rem c))\<bar> = RAMP_MS - ramp_rem c + 1 \<and>
         1 \<le> \<bar>fst (ramp_delta (dir c) (ramp_rem c))\<bar> \<and>
         ramp_rem (advance_target c) = ramp_rem c - 1 \<and>
         (in_limits (word_of_int (sint (pos_tgt c) + fst (ramp_delta (dir c) (ramp_rem c)))) \<longrightarrow>
            pos_tgt (advance_target c)
              = word_of_int (sint (pos_tgt c) + fst (ramp_delta (dir c) (ramp_rem c))) \<and>
            dir (advance_target c) = dir c \<and> dwell_rem (advance_target c) = 0) \<and>
         \<bar>fst (ramp_delta (dir c) (ramp_rem c))\<bar>
            \<le> \<bar>fst (ramp_delta (dir c) (ramp_rem (advance_target c)))\<bar> \<and>
         (\<bar>fst (ramp_delta (dir c) (ramp_rem c))\<bar> = INC_STEP) = (ramp_rem (advance_target c) = 0) \<and>
         \<bar>fst (ramp_delta (dir c) 0)\<bar> = INC_STEP"
proof -
  let ?d = "fst (ramp_delta (dir c) (ramp_rem c))"
  have dr: "dir c = 1 \<or> dir c = - 1"
    using assms(1,2) by (auto simp: ctx_wf_def)
  have rr: "ramp_rem c \<le> RAMP_MS" using assms(1) by (simp add: ctx_wf_def)
  have f1: "?d = (let scaled = (dir c * INC_STEP * (RAMP_MS - ramp_rem c + 1)) sdiv RAMP_MS
                  in if scaled = 0 then dir c else scaled)"
    using dr assms(3) by (auto simp: ramp_delta_def Let_def knobs)
  have f2: "\<bar>?d\<bar> = RAMP_MS - ramp_rem c + 1"
    using ramp_abs[of "dir c" "ramp_rem c"] dr rr assms(3) by simp
  have f3: "1 \<le> \<bar>?d\<bar>" using f2 rr by simp
  have s: "snd (ramp_delta (dir c) (ramp_rem c)) = ramp_rem c - 1"
    using ramp_pm[OF dr assms(3) rr] by simp
  have a: "advance_target c =
           clamp_limits (c\<lparr>ramp_rem := ramp_rem c - 1,
              pos_tgt := word_of_int (sint (pos_tgt c) + ?d)\<rparr>)"
    using assms(2) s by (auto simp: advance_target_def split: prod.splits)
  have r: "ramp_rem (advance_target c) = ramp_rem c - 1"
    by (simp add: a ramp_rem_clamp)
  have n: "in_limits (word_of_int (sint (pos_tgt c) + ?d)) \<longrightarrow>
            pos_tgt (advance_target c) = word_of_int (sint (pos_tgt c) + ?d) \<and>
            dir (advance_target c) = dir c \<and> dwell_rem (advance_target c) = 0"
    unfolding a using assms(2) by (simp add: clamp_limits_def in_limits_def Let_def)
  have f4: "\<bar>?d\<bar> \<le> \<bar>fst (ramp_delta (dir c) (ramp_rem c - 1))\<bar>"
    using ramp_abs[of "dir c" "ramp_rem c - 1"] f2 dr rr assms(3) by (simp add: knobs)
  have f5: "(\<bar>?d\<bar> = INC_STEP) = (ramp_rem c - 1 = 0)"
    using f2 by (auto simp: knobs)
  have f6: "\<bar>fst (ramp_delta (dir c) 0)\<bar> = INC_STEP"
    using ramp_abs[of "dir c" 0] dr by (simp add: knobs)
  show ?thesis
    unfolding r by (intro conjI dr a f1 f2 f3 refl n f4 f5 f6)
qed

theorem ramp_monotonicity_witness:
  "ctx_wf c_ramp \<and> dwell_rem c_ramp = 0 \<and> 0 < ramp_rem c_ramp \<and>
   fst (ramp_delta (dir c_ramp) (ramp_rem c_ramp)) = 1 \<and>
   \<bar>fst (ramp_delta (dir c_ramp) (ramp_rem c_ramp))\<bar> = RAMP_MS - ramp_rem c_ramp + 1 \<and>
   ramp_rem (advance_target c_ramp) = ramp_rem c_ramp - 1 \<and>
   in_limits (word_of_int (sint (pos_tgt c_ramp) + fst (ramp_delta (dir c_ramp) (ramp_rem c_ramp)))) \<and>
   pos_tgt (advance_target c_ramp) = 1001 \<and>
   \<bar>fst (ramp_delta (dir c_ramp) (ramp_rem c_ramp))\<bar>
      \<le> \<bar>fst (ramp_delta (dir c_ramp) (ramp_rem (advance_target c_ramp)))\<bar>"
proof -
  have h: "ctx_wf c_ramp" "dwell_rem c_ramp = 0" "0 < ramp_rem c_ramp"
    by (simp_all add: c_ramp_def ctx_wf_def knobs)
  have d: "fst (ramp_delta (dir c_ramp) (ramp_rem c_ramp)) = 1"
    by (simp add: c_ramp_def ramp_delta_def Let_def knobs signed_divide_int_def)
  have w: "(word_of_int (sint (pos_tgt c_ramp) + 1) :: 32 word) = 1001"
    by (simp add: c_ramp_def)
  have l: "in_limits (1001 :: 32 word)" by (simp add: in_limits_def knobs)
  note t = ramp_monotonicity [OF h]
  have lim: "in_limits (word_of_int (sint (pos_tgt c_ramp)
      + fst (ramp_delta (dir c_ramp) (ramp_rem c_ramp))))"
    unfolding d w by (rule l)
  from t lim have "pos_tgt (advance_target c_ramp)
      = word_of_int (sint (pos_tgt c_ramp) + fst (ramp_delta (dir c_ramp) (ramp_rem c_ramp)))"
    by blast
  then have p: "pos_tgt (advance_target c_ramp) = 1001" unfolding d w .
  from t h d lim p show ?thesis by blast
qed

subsection \<open>C7: following-error hysteresis\<close>

lemma fe_warn_advance: "fe_warn (advance_target c) = fe_warn c"
  by (simp add: advance_frame)

lemma fe_monitor_abs:
  "fe_monitor fe fw =
     (if fw = 0 \<and> \<bar>sint fe\<bar> > fe_warn_th then (1, [WARNF_FE_high fe])
      else if fw \<noteq> 0 \<and> \<bar>sint fe\<bar> < fe_ok_th then (0, [DBGF_FE_back fe])
      else (fw, []))"
  by (auto simp: fe_monitor_def Let_def fe_warn_th_def fe_ok_th_def knobs)

lemma producer_fe:
  "fe_warn (fst (producer inp c)) = fst (fe_monitor (following_error_actual inp) (fe_warn c)) \<and>
   filter is_fe_event (snd (producer inp c)) = snd (fe_monitor (following_error_actual inp) (fe_warn c))"
  by (simp add: producer_def Let_def fe_monitor_abs fe_warn_advance split: prod.splits)

lemma producer_ticks_append:
  "producer_ticks c (xs @ ys) =
     (let (c1, e1) = producer_ticks c xs; (c2, e2) = producer_ticks c1 ys in (c2, e1 @ e2))"
  by (induction xs arbitrary: c) (simp_all split: prod.splits)

lemma fe_quiet_unlatched:
  "fe_warn c = 0 \<Longrightarrow> \<forall>x \<in> set xs. fe_abs x \<le> fe_warn_th \<Longrightarrow>
   fe_warn (fst (producer_ticks c xs)) = 0 \<and> filter is_fe_event (snd (producer_ticks c xs)) = []"
proof (induction xs arbitrary: c)
  case Nil
  then show ?case by simp
next
  case (Cons x xs)
  obtain c1 e1 where p: "producer x c = (c1, e1)" by force
  have "fe_warn c1 = 0 \<and> filter is_fe_event e1 = []"
    using producer_fe[of x c] p Cons.prems by (simp add: fe_monitor_abs fe_abs_def)
  then show ?case using Cons.IH[of c1] Cons.prems p by (auto split: prod.splits)
qed

lemma fe_quiet_latched:
  "fe_warn c \<noteq> 0 \<Longrightarrow> \<forall>y \<in> set ys. fe_ok_th \<le> fe_abs y \<Longrightarrow>
   fe_warn (fst (producer_ticks c ys)) = fe_warn c \<and>
   filter is_fe_event (snd (producer_ticks c ys)) = []"
proof (induction ys arbitrary: c)
  case Nil
  then show ?case by simp
next
  case (Cons x xs)
  obtain c1 e1 where p: "producer x c = (c1, e1)" by force
  have "fe_warn c1 = fe_warn c \<and> filter is_fe_event e1 = []"
    using producer_fe[of x c] p Cons.prems by (simp add: fe_monitor_abs fe_abs_def)
  then show ?case using Cons.IH[of c1] Cons.prems p by (auto split: prod.splits)
qed

lemma fe_rise:
  "fe_warn c = 0 \<Longrightarrow> fe_abs hi > fe_warn_th \<Longrightarrow>
   fe_warn (fst (producer hi c)) = 1 \<and>
   filter is_fe_event (snd (producer hi c)) = [WARNF_FE_high (following_error_actual hi)]"
  using producer_fe[of hi c] by (simp add: fe_monitor_abs fe_abs_def)

lemma fe_fall:
  "fe_warn c \<noteq> 0 \<Longrightarrow> fe_abs lo < fe_ok_th \<Longrightarrow>
   fe_warn (fst (producer lo c)) = 0 \<and>
   filter is_fe_event (snd (producer lo c)) = [DBGF_FE_back (following_error_actual lo)]"
  using producer_fe[of lo c] by (simp add: fe_monitor_abs fe_abs_def)

lemma fe_trace:
  assumes u: "fe_warn c = 0"
    and xs: "\<forall>x \<in> set xs. fe_abs x \<le> fe_warn_th"
    and hi: "fe_abs hi > fe_warn_th"
    and ys: "\<forall>y \<in> set ys. fe_ok_th \<le> fe_abs y"
    and lo: "fe_abs lo < fe_ok_th"
    and zs: "\<forall>z \<in> set zs. fe_abs z \<le> fe_warn_th"
  shows "fe_warn (fst (producer_ticks c (xs @ hi # ys @ lo # zs))) = 0 \<and>
         filter is_fe_event (snd (producer_ticks c (xs @ hi # ys @ lo # zs)))
           = [WARNF_FE_high (following_error_actual hi), DBGF_FE_back (following_error_actual lo)]"
proof -
  obtain c1 e1 where 1: "producer_ticks c xs = (c1, e1)" by force
  obtain c2 e2 where 2: "producer hi c1 = (c2, e2)" by force
  obtain c3 e3 where 3: "producer_ticks c2 ys = (c3, e3)" by force
  obtain c4 e4 where 4: "producer lo c3 = (c4, e4)" by force
  obtain c5 e5 where 5: "producer_ticks c4 zs = (c5, e5)" by force
  have a1: "fe_warn c1 = 0 \<and> filter is_fe_event e1 = []"
    using fe_quiet_unlatched[OF u xs] 1 by simp
  have a2: "fe_warn c2 = 1 \<and> filter is_fe_event e2 = [WARNF_FE_high (following_error_actual hi)]"
    using fe_rise[of c1 hi] a1 hi 2 by simp
  have a3: "fe_warn c3 = 1 \<and> filter is_fe_event e3 = []"
    using fe_quiet_latched[of c2 ys] a2 ys 3 by simp
  have a4: "fe_warn c4 = 0 \<and> filter is_fe_event e4 = [DBGF_FE_back (following_error_actual lo)]"
    using fe_fall[of c3 lo] a3 lo 4 by simp
  have a5: "fe_warn c5 = 0 \<and> filter is_fe_event e5 = []"
    using fe_quiet_unlatched[of c4 zs] a4 zs 5 by simp
  have "producer_ticks c (xs @ hi # ys @ lo # zs) = (c5, e1 @ e2 @ e3 @ e4 @ e5)"
    by (simp add: producer_ticks_append 1 2 3 4 5)
  then show ?thesis using a1 a2 a3 a4 a5 by simp
qed

lemma fe_band:
  assumes "\<forall>b \<in> set bs. fe_ok_th \<le> fe_abs b \<and> fe_abs b \<le> fe_warn_th"
  shows "fe_warn (fst (producer_ticks c bs)) = fe_warn c \<and>
         filter is_fe_event (snd (producer_ticks c bs)) = []"
proof (cases "fe_warn c = 0")
  case True
  then show ?thesis using fe_quiet_unlatched[of c bs] assms by simp
next
  case False
  then show ?thesis using fe_quiet_latched[of c bs] assms by simp
qed

text \<open>
  C7. On a producer tick the latch goes from 0 to 1 exactly when it is 0 and
  \<open>|following_error_actual|\<close> exceeds \<open>FE_WINDOW_COUNTS * FE_WARN_PCT / 100\<close> (one
  \<open>FE high\<close> warning is logged), from set to 0 exactly when it is set and the magnitude
  is below \<open>FE_WINDOW_COUNTS * 40 / 100\<close> (one \<open>FE back\<close> line is logged), and is
  unchanged with nothing logged otherwise. Over successive producer ticks, an error
  trace that stays at or below the warning threshold, rises above it, stays at or above
  the clear threshold, falls below it and stays at or below the warning threshold
  thereafter logs exactly one warning and one recovery; and while the magnitude stays
  between the two thresholds the latch does not change and nothing is logged.
\<close>

theorem fe_hysteresis:
  "fe_warn_th = FE_WINDOW_COUNTS * 80 div 100 \<and> fe_ok_th = FE_WINDOW_COUNTS * 40 div 100 \<and>
   fe_warn (fst (producer inp c)) =
     (if fe_warn c = 0 \<and> fe_warn_th < fe_abs inp then 1
      else if fe_warn c \<noteq> 0 \<and> fe_abs inp < fe_ok_th then 0
      else fe_warn c) \<and>
   filter is_fe_event (snd (producer inp c)) =
     (if fe_warn c = 0 \<and> fe_warn_th < fe_abs inp then [WARNF_FE_high (following_error_actual inp)]
      else if fe_warn c \<noteq> 0 \<and> fe_abs inp < fe_ok_th then [DBGF_FE_back (following_error_actual inp)]
      else []) \<and>
   (fe_warn c = 0 \<and> (\<forall>x \<in> set xs. fe_abs x \<le> fe_warn_th) \<and> fe_warn_th < fe_abs hi \<and>
    (\<forall>y \<in> set ys. fe_ok_th \<le> fe_abs y) \<and> fe_abs lo < fe_ok_th \<and>
    (\<forall>z \<in> set zs. fe_abs z \<le> fe_warn_th) \<longrightarrow>
      fe_warn (fst (producer_ticks c (xs @ hi # ys @ lo # zs))) = 0 \<and>
      filter is_fe_event (snd (producer_ticks c (xs @ hi # ys @ lo # zs)))
        = [WARNF_FE_high (following_error_actual hi), DBGF_FE_back (following_error_actual lo)]) \<and>
   ((\<forall>b \<in> set bs. fe_ok_th \<le> fe_abs b \<and> fe_abs b \<le> fe_warn_th) \<longrightarrow>
      fe_warn (fst (producer_ticks c bs)) = fe_warn c \<and>
      filter is_fe_event (snd (producer_ticks c bs)) = [])"
proof -
  have t: "fe_warn_th = FE_WINDOW_COUNTS * 80 div 100 \<and> fe_ok_th = FE_WINDOW_COUNTS * 40 div 100"
    by (simp add: fe_warn_th_def fe_ok_th_def knobs)
  have s1: "fe_warn (fst (producer inp c)) =
     (if fe_warn c = 0 \<and> fe_warn_th < fe_abs inp then 1
      else if fe_warn c \<noteq> 0 \<and> fe_abs inp < fe_ok_th then 0
      else fe_warn c)"
    using producer_fe[of inp c] by (simp add: fe_monitor_abs fe_abs_def)
  have s2: "filter is_fe_event (snd (producer inp c)) =
     (if fe_warn c = 0 \<and> fe_warn_th < fe_abs inp then [WARNF_FE_high (following_error_actual inp)]
      else if fe_warn c \<noteq> 0 \<and> fe_abs inp < fe_ok_th then [DBGF_FE_back (following_error_actual inp)]
      else [])"
    using producer_fe[of inp c] by (simp add: fe_monitor_abs fe_abs_def)
  have s3: "fe_warn c = 0 \<and> (\<forall>x \<in> set xs. fe_abs x \<le> fe_warn_th) \<and> fe_warn_th < fe_abs hi \<and>
    (\<forall>y \<in> set ys. fe_ok_th \<le> fe_abs y) \<and> fe_abs lo < fe_ok_th \<and>
    (\<forall>z \<in> set zs. fe_abs z \<le> fe_warn_th) \<longrightarrow>
      fe_warn (fst (producer_ticks c (xs @ hi # ys @ lo # zs))) = 0 \<and>
      filter is_fe_event (snd (producer_ticks c (xs @ hi # ys @ lo # zs)))
        = [WARNF_FE_high (following_error_actual hi), DBGF_FE_back (following_error_actual lo)]"
    using fe_trace[of c xs hi ys lo zs] by blast
  have s4: "(\<forall>b \<in> set bs. fe_ok_th \<le> fe_abs b \<and> fe_abs b \<le> fe_warn_th) \<longrightarrow>
      fe_warn (fst (producer_ticks c bs)) = fe_warn c \<and>
      filter is_fe_event (snd (producer_ticks c bs)) = []"
    using fe_band[of bs c] by blast
  from t s1 s2 s3 s4 show ?thesis by blast
qed

theorem fe_hysteresis_witness:
  "fe_warn c_ramp = 0 \<and> fe_abs (fe_in 100) \<le> fe_warn_th \<and> fe_abs (fe_in 12000) \<le> fe_warn_th \<and>
   fe_warn_th < fe_abs (fe_in 17000) \<and>
   fe_ok_th \<le> fe_abs (fe_in 9000) \<and> fe_ok_th \<le> fe_abs (fe_in (- 15000)) \<and>
   fe_ok_th \<le> fe_abs (fe_in 20000) \<and>
   fe_abs (fe_in (- 100)) < fe_ok_th \<and>
   fe_warn (fst (producer_ticks c_ramp
      [fe_in 100, fe_in 12000, fe_in 17000, fe_in 9000, fe_in (- 15000), fe_in 20000,
       fe_in (- 100), fe_in 12000])) = 0 \<and>
   filter is_fe_event (snd (producer_ticks c_ramp
      [fe_in 100, fe_in 12000, fe_in 17000, fe_in 9000, fe_in (- 15000), fe_in 20000,
       fe_in (- 100), fe_in 12000]))
     = [WARNF_FE_high 17000, DBGF_FE_back (- 100)] \<and>
   fe_warn (fst (producer_ticks c_ramp [fe_in 9000, fe_in (- 15000)])) = fe_warn c_ramp \<and>
   filter is_fe_event (snd (producer_ticks c_ramp [fe_in 9000, fe_in (- 15000)])) = []"
proof -
  have a: "fe_abs (fe_in 100) = 100" "fe_abs (fe_in 12000) = 12000" "fe_abs (fe_in 17000) = 17000"
    "fe_abs (fe_in 9000) = 9000" "fe_abs (fe_in (- 15000)) = 15000"
    "fe_abs (fe_in 20000) = 20000" "fe_abs (fe_in (- 100)) = 100"
    by (simp_all add: fe_abs_def fe_in_def)
  have t: "fe_warn_th = 16000" "fe_ok_th = 8000"
    by (simp_all add: fe_warn_th_def fe_ok_th_def knobs)
  have u: "fe_warn c_ramp = 0" by (simp add: c_ramp_def)
  have f: "following_error_actual (fe_in 17000) = 17000"
    "following_error_actual (fe_in (- 100)) = - 100"
    by (simp_all add: fe_in_def)
  from fe_hysteresis [where c = c_ramp and xs = "[fe_in 100, fe_in 12000]" and hi = "fe_in 17000"
      and ys = "[fe_in 9000, fe_in (- 15000), fe_in 20000]" and lo = "fe_in (- 100)"
      and zs = "[fe_in 12000]" and bs = "[fe_in 9000, fe_in (- 15000)]"]
  show ?thesis
    by (simp add: a t u f)
qed

subsection \<open>C8: the new-set-point edge\<close>

lemma Run_cycle_running:
  "running_tick now inp c \<Longrightarrow>
   Run_cycle now inp c = (let (c1, effs) = producer inp c in (c1\<lparr>t0 := now\<rparr>, effs))"
  by (simp add: running_tick_def Run_cycle_def Let_def)

lemma bit4_flip: "bit ((e::16 word) XOR 0x10) 4 = (\<not> bit e 4)"
  by (simp add: bit_xor_iff)

lemma cw_bit4: "bit ((0x000F::16 word) OR e) 4 = bit e 4"
  by (simp add: bit_or_iff)

lemma fe_monitor_logs: "list_all is_fe_event (snd (fe_monitor fe fw))"
  by (simp add: fe_monitor_def Let_def)

lemma producer_edge:
  assumes "producer inp c = (c', effs)"
  shows "take 2 effs = [Write_target_position (pos_tgt c'), Write_control_word (0x000F OR edge c')] \<and>
   list_all is_fe_event (drop 2 effs) \<and>
   edge c' = (if pos_tgt c' \<noteq> pos_tgt c then edge c XOR 0x0010 else edge c)"
proof -
  obtain fw logs where
    m: "fe_monitor (following_error_actual inp) (fe_warn (advance_target c)) = (fw, logs)"
    by force
  have l: "list_all is_fe_event logs"
    using fe_monitor_logs[of "following_error_actual inp" "fe_warn (advance_target c)"] m by simp
  have e: "edge (advance_target c) = edge c" by (simp add: advance_frame)
  show ?thesis
  proof (cases "pos_tgt (advance_target c) \<noteq> pos_tgt c")
    case True
    then show ?thesis using assms m l e by (auto simp: producer_def Let_def)
  next
    case False
    then show ?thesis using assms m l e by (auto simp: producer_def Let_def)
  qed
qed

text \<open>The running target and the target field of the output buffer: the running target
  changes only on a tick that writes it, and once the two agree they stay equal. So the
  running target a producer tick finds is the target the previous writing tick wrote.\<close>

lemma fold_fe_logs: "fold apply_effect (snd (fe_monitor fe fw)) out = out"
  by (simp add: fe_monitor_def Let_def)

lemma producer_out:
  "fold apply_effect (snd (producer inp c)) out =
     out\<lparr>target_position := pos_tgt (fst (producer inp c)),
         control_word := 0x000F OR edge (fst (producer inp c))\<rparr>"
proof -
  obtain fw logs where
    m: "fe_monitor (following_error_actual inp) (fe_warn (advance_target c)) = (fw, logs)"
    by force
  have l: "fold apply_effect logs x = x" for x
    using fold_fe_logs[of "following_error_actual inp" "fe_warn (advance_target c)" x] m by simp
  show ?thesis
    by (cases "pos_tgt (advance_target c) \<noteq> pos_tgt c") (simp_all add: producer_def Let_def m l)
qed

lemma target_changes_only_by_write:
  "pos_tgt (fst (Run_cycle now inp c)) \<noteq> pos_tgt c \<Longrightarrow>
   Write_target_position (pos_tgt (fst (Run_cycle now inp c))) \<in> set (snd (Run_cycle now inp c))"
  using producer_target[of inp c "pos_tgt (advance_target c)"]
  by (auto simp: Run_cycle_def Let_def split: if_splits prod.splits)

lemma out_target_synced:
  assumes "target_position out = pos_tgt c"
  shows "target_position (fold apply_effect (snd (Run_cycle now inp c)) out)
           = pos_tgt (fst (Run_cycle now inp c))"
proof -
  have p: "target_position (fold apply_effect (snd (producer inp c)) out)
             = pos_tgt (fst (producer inp c))"
    by (simp add: producer_out)
  show ?thesis using assms p
    by (auto simp: Run_cycle_def Let_def split: if_splits prod.splits)
qed

text \<open>What a producer tick (no guard fires, stage Running, period elapsed) does to the
  static \<open>edge\<close>: the call writes the new running target and then the control word
  \<open>0x000F OR edge\<close>, and nothing else to the output buffer; \<open>edge\<close> is toggled by
  \<open>XOR 0x0010\<close> exactly when the new running target differs from the one the tick found.\<close>

lemma edge_static_toggle:
  assumes "running_tick now inp c" and "Run_cycle now inp c = (c', effs)"
  shows "take 2 effs = [Write_target_position (pos_tgt c'), Write_control_word (0x000F OR edge c')] \<and>
         list_all is_fe_event (drop 2 effs) \<and>
         (bit (0x000F OR edge c') 4 \<noteq> bit (edge c) 4) = (pos_tgt c' \<noteq> pos_tgt c) \<and>
         edge c' = (if pos_tgt c' \<noteq> pos_tgt c then edge c XOR 0x0010 else edge c)"
proof -
  obtain c1 where p: "producer inp c = (c1, effs)" and c': "c' = c1\<lparr>t0 := now\<rparr>"
    using assms by (auto simp: Run_cycle_running split: prod.splits)
  have "bit (0x000F OR edge c1) 4 = bit (edge c1) 4" by (rule cw_bit4)
  with producer_edge[OF p] c' show ?thesis
    by (auto simp: bit4_flip)
qed

text \<open>On the output buffer this gives the edge policy only while bit 4 of the control
  word in the buffer agrees with \<open>edge\<close>, as it does after a producer tick: then bit 4 of
  the control word flips exactly when the target in the buffer changes, and the two agree
  again afterwards. Every other write of the control word (\<open>0x0006\<close>, \<open>0x0007\<close>, \<open>0x000F\<close>,
  \<open>0x0080\<close>) clears bit 4 in the buffer and leaves \<open>edge\<close> as it is.\<close>

lemma edge_policy_in_step:
  assumes "running_tick now inp c" and "Run_cycle now inp c = (c', effs)"
    and "bit (control_word out) 4 = bit (edge c) 4" and "target_position out = pos_tgt c"
  shows "(bit (control_word (fold apply_effect effs out)) 4 \<noteq> bit (control_word out) 4)
           = (target_position (fold apply_effect effs out) \<noteq> target_position out) \<and>
         bit (control_word (fold apply_effect effs out)) 4 = bit (edge c') 4 \<and>
         target_position (fold apply_effect effs out) = pos_tgt c'"
proof -
  obtain c1 where p: "producer inp c = (c1, effs)" and c': "c' = c1\<lparr>t0 := now\<rparr>"
    using assms(1,2) by (auto simp: Run_cycle_running split: prod.splits)
  have o: "fold apply_effect effs out =
             out\<lparr>target_position := pos_tgt c1, control_word := 0x000F OR edge c1\<rparr>"
    using producer_out[of inp c out] p by simp
  have e: "edge c1 = (if pos_tgt c1 \<noteq> pos_tgt c then edge c XOR 0x0010 else edge c)"
    using producer_edge[OF p] by simp
  show ?thesis
    unfolding o using assms(3,4) e c' by (auto simp: cw_bit4 bit4_flip)
qed






















subsection \<open>C4: the fault-reset pulse\<close>

lemma fault_bit_nonzero: "(sw :: 16 word) AND 0x0008 \<noteq> 0 \<Longrightarrow> sw \<noteq> 0"
  by auto

lemma fault_tick:
  "status_word inp AND 0x0008 \<noteq> 0 \<Longrightarrow>
   Run_cycle now inp c =
     (if need_release c = 0 then (c\<lparr>need_release := 1\<rparr>, [Write_control_word 0x0080])
      else (c\<lparr>need_release := 0\<rparr>, [Write_control_word 0x0006]))"
  using fault_bit_nonzero[of "status_word inp"] by (simp add: Run_cycle_def Let_def)

lemma fault_then_clear_tick1:
  "Run_cycle 2 (drive_in 0x08 0) (ctx0\<lparr>st := 1\<rparr>)
     = (ctx0\<lparr>st := 1, need_release := 1\<rparr>, [Write_control_word 0x0080])"
  by (simp add: Run_cycle_def drive_in_def ctx0_def knobs)

lemma fault_then_clear_tick2:
  "Run_cycle 3 (drive_in 0x23 0) (ctx0\<lparr>st := 1, need_release := 1\<rparr>)
     = (ctx0\<lparr>st := 2, need_release := 1\<rparr>, [Write_control_word 0x0007, DBGF_SwitchedOn])"
  by (simp add: Run_cycle_def drive_in_def ctx0_def knobs)

lemma stale_release_tick:
  "Run_cycle 4 (drive_in 0x08 0) (ctx0\<lparr>st := 2, need_release := 1\<rparr>)
     = (ctx0\<lparr>st := 2\<rparr>, [Write_control_word 0x0006])"
  by (simp add: Run_cycle_def drive_in_def ctx0_def knobs)

lemma late_pulse_tick:
  "Run_cycle 5 (drive_in 0x08 0) (ctx0\<lparr>st := 2\<rparr>)
     = (ctx0\<lparr>st := 2, need_release := 1\<rparr>, [Write_control_word 0x0080])"
  by (simp add: Run_cycle_def drive_in_def ctx0_def knobs)

lemma fault_release_tick:
  "Run_cycle 3 (drive_in 0x08 0) (ctx0\<lparr>st := 1, need_release := 1\<rparr>)
     = (ctx0\<lparr>st := 1\<rparr>, [Write_control_word 0x0006])"
  by (simp add: Run_cycle_def drive_in_def ctx0_def knobs)

text \<open>While the fault bit stays set the pulse is as documented, provided no pulse is
  pending when the fault is first seen: the first tick writes \<open>0x0080\<close> and sets the
  pending flag, the second writes \<open>0x0006\<close> and clears it.\<close>

lemma fault_pulse_while_fault_persists:
  assumes "status_word i1 AND 0x0008 \<noteq> 0" and "status_word i2 AND 0x0008 \<noteq> 0"
    and "need_release c = 0"
  shows "run_ticks c [(n1, i1), (n2, i2)] =
           [(c\<lparr>need_release := 1\<rparr>, [Write_control_word 0x0080]),
            (c\<lparr>need_release := 0\<rparr>, [Write_control_word 0x0006])]"
  using assms by (simp add: fault_tick)

text \<open>
  C4 (the code departs from it). Both phases of the pulse sit under the test of the fault
  bit, and the pending flag is cleared nowhere else. In the trace below the stage is
  SwitchingOn when a fault is seen on tick 2 and gone on tick 3: the control words of
  ticks 2 and 3 are \<open>0x0080\<close>, \<open>0x0007\<close>, so the release to \<open>0x0006\<close> is skipped, and the
  pending flag stays set. The next fault, seen on ticks 4 and 5, then gets the two phases
  in the wrong order: \<open>0x0006\<close>, \<open>0x0080\<close>.
\<close>

theorem fault_pulse_release_skipped:
  "status_word (drive_in 0x0008 0) AND 0x0008 \<noteq> 0 \<and>
   map (cw_writes \<circ> snd) (run_ticks ctx0 fault_glitch_trace)
     = [[0x0006], [0x0080], [0x0007], [0x0006], [0x0080]] \<and>
   map (need_release \<circ> fst) (run_ticks ctx0 fault_glitch_trace) = [0, 1, 1, 0, 1] \<and>
   concat (take 2 (drop 1 (map (cw_writes \<circ> snd) (run_ticks ctx0 fault_glitch_trace))))
     \<noteq> [0x0080, 0x0006] \<and>
   concat (take 2 (drop 3 (map (cw_writes \<circ> snd) (run_ticks ctx0 fault_glitch_trace))))
     \<noteq> [0x0080, 0x0006]"
proof -
  have f: "status_word (drive_in 0x0008 0) AND 0x0008 \<noteq> 0" by (simp add: drive_in_def)
  have r: "map (cw_writes \<circ> snd) (run_ticks ctx0 fault_glitch_trace)
     = [[0x0006], [0x0080], [0x0007], [0x0006], [0x0080]]"
    by (simp add: fault_glitch_trace_def ready_tick fault_then_clear_tick1 fault_then_clear_tick2
        stale_release_tick late_pulse_tick)
  have n: "map (need_release \<circ> fst) (run_ticks ctx0 fault_glitch_trace) = [0, 1, 1, 0, 1]"
    by (simp add: fault_glitch_trace_def ready_tick fault_then_clear_tick1 fault_then_clear_tick2
        stale_release_tick late_pulse_tick) (simp add: ctx0_def)
  show ?thesis unfolding r n using f by simp
qed

subsection \<open>C3: the post-fault cooldown is never armed\<close>

text \<open>
  C3 (the code departs from it). \<open>fault_cool_rem\<close> starts at 0 and no statement assigns
  \<open>FAULT_COOLDOWN_MS\<close> to it: it is 0 after every trace, so the cooldown branch never
  runs. In the trace below the stage is SwitchingOn, a fault is pulsed and released, and
  on the first tick after the fault bit has cleared the call writes \<open>0x0007\<close> and moves on
  to Aligning instead of holding \<open>0x0006\<close>.
\<close>

theorem no_cooldown_after_fault:
  "fault_cool_rem (ctx_after ctx0 ticks) = 0 \<and>
   run_ticks ctx0
     [(1, drive_in 0x0021 0), (2, drive_in 0x0008 0), (3, drive_in 0x0008 0), (4, drive_in 0x0023 0)]
     = [(ctx0\<lparr>st := 1\<rparr>, [Write_control_word 0x0006, DBGF_ReadyToSwitchOn]),
        (ctx0\<lparr>st := 1, need_release := 1\<rparr>, [Write_control_word 0x0080]),
        (ctx0\<lparr>st := 1\<rparr>, [Write_control_word 0x0006]),
        (ctx0\<lparr>st := 2\<rparr>, [Write_control_word 0x0007, DBGF_SwitchedOn])]"
proof -
  have "fault_cool_rem (ctx_after ctx0 ticks) = 0"
    using ctx_wf_ctx_after[OF ctx_wf_ctx0, of ticks] by (simp add: ctx_wf_def)
  then show ?thesis
    by (simp add: ready_tick fault_then_clear_tick1 fault_release_tick switched_on_tick)
qed

subsection \<open>C2: dwell and reversal on a healthy drive\<close>

text \<open>One producer tick seen on the motion part of the statics.\<close>

lemma running_at_step:
  assumes "running_at c n x d dw r"
  shows "running_at (fst (Run_cycle (n + 1) run_in c)) (n + 1)
           (sint (pos_tgt (advance_target c))) (dir (advance_target c))
           (dwell_rem (advance_target c)) (ramp_rem (advance_target c))"
proof -
  have g: "status_word run_in = 0x27" "following_error_actual run_in = 0"
    by (simp_all add: run_in_def drive_in_def)
  have p: "producer run_in c =
      ((if pos_tgt (advance_target c) \<noteq> pos_tgt c
        then (advance_target c)\<lparr>edge := edge (advance_target c) XOR 0x0010\<rparr>
        else advance_target c)\<lparr>fe_warn := 0\<rparr>,
       [Write_target_position (pos_tgt (advance_target c)),
        Write_control_word (0x000F OR (if pos_tgt (advance_target c) \<noteq> pos_tgt c
            then edge (advance_target c) XOR 0x0010 else edge (advance_target c)))])"
    using assms advance_frame[of c]
    by (simp add: producer_def Let_def fe_monitor_def g running_at_def knobs)
  have "Run_cycle (n + 1) run_in c = (let (c1, effs) = producer run_in c in (c1\<lparr>t0 := n + 1\<rparr>, effs))"
    using assms by (simp add: Run_cycle_def Let_def g running_at_def knobs)
  then show ?thesis
    using assms advance_frame[of c] by (simp add: p running_at_def)
qed

text \<open>What lines 307--325 do to the motion part, case by case.\<close>

lemma adv_dwell:
  "running_at c n x d dw r \<Longrightarrow> 1 < dw \<Longrightarrow> advance_target c = c\<lparr>dwell_rem := dw - 1\<rparr>"
  by (simp add: advance_target_def Let_def running_at_def)

lemma adv_dwell_end:
  "running_at c n x d 1 r \<Longrightarrow>
   advance_target c = c\<lparr>dwell_rem := 0, ramp_rem := RAMP_MS, dir := (if d = 0 then - 1 else d)\<rparr>"
  by (simp add: advance_target_def Let_def running_at_def)

lemma adv_move:
  assumes "running_at c n x d 0 r" and "ramp_delta d r = (delta, r')"
    and "- LIMIT_POS \<le> x + delta" and "x + delta \<le> LIMIT_POS"
  shows "advance_target c = c\<lparr>ramp_rem := r', pos_tgt := word_of_int (x + delta)\<rparr> \<and>
         sint (word_of_int (x + delta) :: 32 word) = x + delta"
proof -
  have s: "sint (word_of_int (x + delta) :: 32 word) = x + delta"
    using assms(3,4) by (intro sint_word_of_int_32) (simp_all add: knobs)
  show ?thesis using assms s
    by (simp add: advance_target_def clamp_limits_def Let_def running_at_def)
qed

lemma adv_clamp_lo:
  assumes "running_at c n x d 0 r" and "ramp_delta d r = (delta, r')"
    and "- (2 ^ 31) \<le> x + delta" and "x + delta < - LIMIT_POS"
  shows "advance_target c = c\<lparr>ramp_rem := r', pos_tgt := word_of_int (- LIMIT_POS),
           dwell_rem := DWELL_MS, dir := 0\<rparr> \<and>
         sint (word_of_int (- LIMIT_POS) :: 32 word) = - LIMIT_POS"
proof -
  have s: "sint (word_of_int (x + delta) :: 32 word) = x + delta"
    using assms(3,4) by (intro sint_word_of_int_32) (simp_all add: knobs)
  show ?thesis using assms s
    by (simp add: advance_target_def clamp_limits_def Let_def running_at_def) (simp add: knobs)
qed

lemma adv_clamp_hi:
  assumes "running_at c n x d 0 r" and "ramp_delta d r = (delta, r')"
    and "x + delta < 2 ^ 31" and "LIMIT_POS < x + delta"
  shows "advance_target c = c\<lparr>ramp_rem := r', pos_tgt := word_of_int LIMIT_POS,
           dwell_rem := DWELL_MS, dir := 0\<rparr> \<and>
         sint (word_of_int LIMIT_POS :: 32 word) = LIMIT_POS"
proof -
  have s: "sint (word_of_int (x + delta) :: 32 word) = x + delta"
    using assms(3,4) by (intro sint_word_of_int_32) (simp_all add: knobs)
  show ?thesis using assms s
    by (simp add: advance_target_def clamp_limits_def Let_def running_at_def) (simp add: knobs)
qed

text \<open>The same cases as steps of the cycle function on the healthy input \<open>run_in\<close>.\<close>

lemma tick_dwell:
  assumes "running_at c n x d dw r" and "1 < dw"
  shows "running_at (fst (Run_cycle (n + 1) run_in c)) (n + 1) x d (dw - 1) r"
  using running_at_step[OF assms(1)] adv_dwell[OF assms] assms(1)
  by (simp add: running_at_def)

lemma tick_dwell_end:
  assumes "running_at c n x d 1 r"
  shows "running_at (fst (Run_cycle (n + 1) run_in c)) (n + 1) x (if d = 0 then - 1 else d) 0 RAMP_MS"
  using running_at_step[OF assms] adv_dwell_end[OF assms] assms
  by (simp add: running_at_def)

lemma tick_move:
  assumes "running_at c n x d 0 r" and "ramp_delta d r = (delta, r')"
    and "- LIMIT_POS \<le> x + delta" and "x + delta \<le> LIMIT_POS"
  shows "running_at (fst (Run_cycle (n + 1) run_in c)) (n + 1) (x + delta) d 0 r'"
  using running_at_step[OF assms(1)] adv_move[OF assms] assms(1)
  by (simp add: running_at_def)

lemma tick_clamp_lo:
  assumes "running_at c n x d 0 r" and "ramp_delta d r = (delta, r')"
    and "- (2 ^ 31) \<le> x + delta" and "x + delta < - LIMIT_POS"
  shows "running_at (fst (Run_cycle (n + 1) run_in c)) (n + 1) (- LIMIT_POS) 0 DWELL_MS r'"
  using running_at_step[OF assms(1)] adv_clamp_lo[OF assms] assms(1)
  by (simp add: running_at_def)

lemma tick_clamp_hi:
  assumes "running_at c n x d 0 r" and "ramp_delta d r = (delta, r')"
    and "x + delta < 2 ^ 31" and "LIMIT_POS < x + delta"
  shows "running_at (fst (Run_cycle (n + 1) run_in c)) (n + 1) LIMIT_POS 0 DWELL_MS r'"
  using running_at_step[OF assms(1)] adv_clamp_hi[OF assms] assms(1)
  by (simp add: running_at_def)

lemma ctx_after_append: "ctx_after c (xs @ ys) = ctx_after (ctx_after c xs) ys"
  by (induction c xs rule: ctx_after.induct) simp_all

lemma steady_add: "steady n (a + b) = steady n a @ steady (n + int a) b"
  by (induction a arbitrary: n) (simp_all add: algebra_simps)

text \<open>Many ticks at once: a dwell that does not end, a ramp going down, full steps going
  down, all without reaching a limit.\<close>

lemma dwell_ticks:
  "running_at c n x d (int k + j) r \<Longrightarrow> 1 \<le> j \<Longrightarrow>
   running_at (ctx_after c (steady n k)) (n + int k) x d j r"
proof (induction k arbitrary: c n)
  case 0
  then show ?case by simp
next
  case (Suc k)
  have "running_at (fst (Run_cycle (n + 1) run_in c)) (n + 1) x d (int k + j) r"
    using tick_dwell[OF Suc.prems(1)] Suc.prems(2) by simp
  from Suc.IH[OF this Suc.prems(2)] show ?case by (simp add: algebra_simps)
qed

lemma ramp_sum_nonneg: "r \<le> RAMP_MS \<Longrightarrow> 0 \<le> ramp_sum r k"
  by (induction k arbitrary: r) (simp_all add: add_nonneg_nonneg)

lemma ramp_sum_closed: "2 * ramp_sum r k = int k * (2 * (RAMP_MS - r + 1) + int k - 1)"
proof (induction k arbitrary: r)
  case 0
  then show ?case by simp
next
  case (Suc k)
  have "2 * ramp_sum r (Suc k) = 2 * (RAMP_MS - r + 1) + 2 * ramp_sum (r - 1) k" by simp
  also have "\<dots> = 2 * (RAMP_MS - r + 1) + int k * (2 * (RAMP_MS - (r - 1) + 1) + int k - 1)"
    by (simp only: Suc.IH)
  also have "\<dots> = int (Suc k) * (2 * (RAMP_MS - r + 1) + int (Suc k) - 1)"
    by (simp add: algebra_simps)
  finally show ?case .
qed

lemma ramp_down_ticks:
  "running_at c n x (- 1) 0 r \<Longrightarrow> int k \<le> r \<Longrightarrow> r \<le> RAMP_MS \<Longrightarrow> x \<le> LIMIT_POS \<Longrightarrow>
   - LIMIT_POS + ramp_sum r k \<le> x \<Longrightarrow>
   running_at (ctx_after c (steady n k)) (n + int k) (x - ramp_sum r k) (- 1) 0 (r - int k)"
proof (induction k arbitrary: c n x r)
  case 0
  then show ?case by simp
next
  case (Suc k)
  have r: "0 < r" using Suc.prems(2) by simp
  have d: "ramp_delta (- 1) r = (- (RAMP_MS - r + 1), r - 1)"
    using ramp_down[OF r Suc.prems(3)] .
  have nn: "0 \<le> ramp_sum (r - 1) k" using Suc.prems(3) by (intro ramp_sum_nonneg) simp
  have lo: "- LIMIT_POS \<le> x + - (RAMP_MS - r + 1)" using Suc.prems(5) nn by simp
  have hi: "x + - (RAMP_MS - r + 1) \<le> LIMIT_POS" using Suc.prems(3,4) by simp
  have s: "running_at (fst (Run_cycle (n + 1) run_in c)) (n + 1) (x + - (RAMP_MS - r + 1)) (- 1) 0 (r - 1)"
    using tick_move[OF Suc.prems(1) d lo hi] .
  have "running_at (ctx_after (fst (Run_cycle (n + 1) run_in c)) (steady (n + 1) k)) (n + 1 + int k)
          (x + - (RAMP_MS - r + 1) - ramp_sum (r - 1) k) (- 1) 0 (r - 1 - int k)"
    using Suc.prems by (intro Suc.IH[OF s]) simp_all
  then show ?case by (simp add: algebra_simps)
qed

lemma cruise_down_ticks:
  "running_at c n x (- 1) 0 0 \<Longrightarrow> x \<le> LIMIT_POS \<Longrightarrow> - LIMIT_POS + INC_STEP * int k \<le> x \<Longrightarrow>
   running_at (ctx_after c (steady n k)) (n + int k) (x - INC_STEP * int k) (- 1) 0 0"
proof (induction k arbitrary: c n x)
  case 0
  then show ?case by simp
next
  case (Suc k)
  have d: "ramp_delta (- 1) 0 = (- INC_STEP, 0)"
    using ramp_over[of 0 "- 1"] by simp
  have lo: "- LIMIT_POS \<le> x + - INC_STEP" using Suc.prems(3) by (simp add: knobs)
  have hi: "x + - INC_STEP \<le> LIMIT_POS" using Suc.prems(2) by (simp add: knobs)
  have s: "running_at (fst (Run_cycle (n + 1) run_in c)) (n + 1) (x + - INC_STEP) (- 1) 0 0"
    using tick_move[OF Suc.prems(1) d lo hi] .
  have "running_at (ctx_after (fst (Run_cycle (n + 1) run_in c)) (steady (n + 1) k)) (n + 1 + int k)
          (x + - INC_STEP - INC_STEP * int k) (- 1) 0 0"
    using Suc.prems hi by (intro Suc.IH[OF s]) (simp_all add: algebra_simps)
  then show ?case by (simp add: algebra_simps)
qed

text \<open>Once the target sits on the lower limit it stays there.\<close>

lemma pinned_low_step:
  assumes "pinned_low c n"
  shows "pinned_low (fst (Run_cycle (n + 1) run_in c)) (n + 1)"
proof -
  from assms consider
      (dwell) dw r where "running_at c n (- LIMIT_POS) 0 dw r" "1 < dw"
    | (dwell_end) r where "running_at c n (- LIMIT_POS) 0 1 r"
    | (ramp) r where "running_at c n (- LIMIT_POS) (- 1) 0 r" "0 < r" "r \<le> RAMP_MS"
    | (full) "running_at c n (- LIMIT_POS) (- 1) 0 0"
    unfolding pinned_low_def by (metis less_le order.order_iff_strict)
  then show ?thesis
  proof cases
    case dwell
    from tick_dwell[OF dwell] dwell(2) show ?thesis
      unfolding pinned_low_def by (metis (no_types) add_le_cancel_left diff_add_cancel zless_imp_add1_zle add.commute)
  next
    case dwell_end
    from tick_dwell_end[OF dwell_end] show ?thesis
      unfolding pinned_low_def by (auto simp: knobs)
  next
    case ramp
    have d: "ramp_delta (- 1) r = (- (RAMP_MS - r + 1), r - 1)"
      using ramp_down[OF ramp(2,3)] .
    have "running_at (fst (Run_cycle (n + 1) run_in c)) (n + 1) (- LIMIT_POS) 0 DWELL_MS (r - 1)"
      using ramp by (intro tick_clamp_lo[OF ramp(1) d]) (simp_all add: knobs)
    then show ?thesis unfolding pinned_low_def by (auto simp: knobs)
  next
    case full
    have d: "ramp_delta (- 1) 0 = (- INC_STEP, 0)"
      using ramp_over[of 0 "- 1"] by simp
    have "running_at (fst (Run_cycle (n + 1) run_in c)) (n + 1) (- LIMIT_POS) 0 DWELL_MS 0"
      by (intro tick_clamp_lo[OF full d]) (simp_all add: knobs)
    then show ?thesis unfolding pinned_low_def by (auto simp: knobs)
  qed
qed

lemma pinned_low_forever:
  "pinned_low c n \<Longrightarrow> pinned_low (ctx_after c (steady n k)) (n + int k)"
proof (induction k arbitrary: c n)
  case 0
  then show ?case by simp
next
  case (Suc k)
  from Suc.IH[OF pinned_low_step[OF Suc.prems]] show ?case by (simp add: algebra_simps)
qed

text \<open>The trace of the healthy drive enabled at 200000 counts, phase by phase.\<close>

lemma steady_split:
  "ctx_after c (steady n (a + b)) = ctx_after (ctx_after c (steady n a)) (steady (n + int a) b)"
  by (simp add: steady_add ctx_after_append)

lemma enable_at_run:
  "ctx_after ctx0 (enable_at p) = ctx0\<lparr>st := 3, t0 := 3, pos_tgt := p, ramp_rem := RAMP_MS\<rparr>"
  by (simp add: enable_at_def ready_tick switched_on_tick enabled_tick)

lemma stuck_trace:
  defines "c3 \<equiv> ctx_after ctx0 (enable_at 200000)"
  shows "running_at (ctx_after c3 (steady 3 1)) 4 LIMIT_POS 0 DWELL_MS (RAMP_MS - 1)"
    and "running_at (ctx_after c3 (steady 3 501)) 504 LIMIT_POS (- 1) 0 RAMP_MS"
    and "running_at (ctx_after c3 (steady 3 502)) 505 (LIMIT_POS - 1) (- 1) 0 (RAMP_MS - 1)"
    and "running_at (ctx_after c3 (steady 3 1984)) 1987 (- LIMIT_POS) 0 DWELL_MS 0"
    and "running_at (ctx_after c3 (steady 3 2484)) 2487 (- LIMIT_POS) (- 1) 0 RAMP_MS"
    and "running_at (ctx_after c3 (steady 3 2485)) 2488 (- LIMIT_POS) 0 DWELL_MS (RAMP_MS - 1)"
    and "sint (pos_tgt (ctx_after c3 (steady 3 (1984 + m)))) = - LIMIT_POS"
    and "sint (pos_tgt (ctx_after c3 (steady 3 (1 + min k 500)))) = LIMIT_POS"
proof -
  have r3: "running_at c3 3 200000 1 0 RAMP_MS"
    unfolding c3_def enable_at_run by (simp add: running_at_def ctx0_def knobs)
  have up: "ramp_delta 1 RAMP_MS = (1, RAMP_MS - 1)"
    using ramp_up[of RAMP_MS] by (simp add: knobs)
  have dn: "ramp_delta (- 1) RAMP_MS = (- 1, RAMP_MS - 1)"
    using ramp_down[of RAMP_MS] by (simp add: knobs)
  have full: "ramp_delta (- 1) 0 = (- INC_STEP, 0)"
    using ramp_over[of 0 "- 1"] by simp
  have r4: "running_at (ctx_after c3 (steady 3 1)) 4 LIMIT_POS 0 DWELL_MS (RAMP_MS - 1)"
    using tick_clamp_hi[OF r3 up] by (simp add: knobs)
  then show "running_at (ctx_after c3 (steady 3 1)) 4 LIMIT_POS 0 DWELL_MS (RAMP_MS - 1)" .
  have r503: "running_at (ctx_after c3 (steady 3 500)) 503 LIMIT_POS 0 1 (RAMP_MS - 1)"
    using dwell_ticks[of "ctx_after c3 (steady 3 1)" 4 LIMIT_POS 0 499 1 "RAMP_MS - 1"] r4
      steady_split[of c3 3 1 499] by (simp add: knobs)
  have r504: "running_at (ctx_after c3 (steady 3 501)) 504 LIMIT_POS (- 1) 0 RAMP_MS"
    using tick_dwell_end[OF r503] steady_split[of c3 3 500 1] by simp
  then show "running_at (ctx_after c3 (steady 3 501)) 504 LIMIT_POS (- 1) 0 RAMP_MS" .
  show "sint (pos_tgt (ctx_after c3 (steady 3 (1 + min k 500)))) = LIMIT_POS"
  proof (cases "k < 500")
    case True
    have "running_at (ctx_after c3 (steady 3 1)) 4 LIMIT_POS 0 (int k + (DWELL_MS - int k)) (RAMP_MS - 1)"
      using r4 by simp
    from dwell_ticks[OF this] True
    have "running_at (ctx_after (ctx_after c3 (steady 3 1)) (steady 4 k)) (4 + int k)
            LIMIT_POS 0 (DWELL_MS - int k) (RAMP_MS - 1)"
      by (simp add: knobs)
    then show ?thesis
      using True steady_split[of c3 3 1 k] by (simp add: running_at_def min_def)
  next
    case False
    then have "min k 500 = 500" by simp
    then show ?thesis using r504 by (simp add: running_at_def)
  qed
  show "running_at (ctx_after c3 (steady 3 502)) 505 (LIMIT_POS - 1) (- 1) 0 (RAMP_MS - 1)"
    using tick_move[OF r504 dn] steady_split[of c3 3 501 1] by (simp add: knobs)
  have rs: "ramp_sum RAMP_MS 300 = 45150"
    using ramp_sum_closed[of RAMP_MS 300] by (simp add: knobs)
  have r804: "running_at (ctx_after c3 (steady 3 801)) 804 154850 (- 1) 0 0"
    using ramp_down_ticks[OF r504, of 300] rs steady_split[of c3 3 501 300] by (simp add: knobs)
  have r1986: "running_at (ctx_after c3 (steady 3 1983)) 1986 (- 199750) (- 1) 0 0"
    using cruise_down_ticks[OF r804, of 1182] steady_split[of c3 3 801 1182] by (simp add: knobs)
  have r1987: "running_at (ctx_after c3 (steady 3 1984)) 1987 (- LIMIT_POS) 0 DWELL_MS 0"
    using tick_clamp_lo[OF r1986 full] steady_split[of c3 3 1983 1] by (simp add: knobs)
  then show "running_at (ctx_after c3 (steady 3 1984)) 1987 (- LIMIT_POS) 0 DWELL_MS 0" .
  have r2486: "running_at (ctx_after c3 (steady 3 2483)) 2486 (- LIMIT_POS) 0 1 0"
    using dwell_ticks[of "ctx_after c3 (steady 3 1984)" 1987 "- LIMIT_POS" 0 499 1 0] r1987
      steady_split[of c3 3 1984 499] by (simp add: knobs)
  have r2487: "running_at (ctx_after c3 (steady 3 2484)) 2487 (- LIMIT_POS) (- 1) 0 RAMP_MS"
    using tick_dwell_end[OF r2486] steady_split[of c3 3 2483 1] by simp
  then show "running_at (ctx_after c3 (steady 3 2484)) 2487 (- LIMIT_POS) (- 1) 0 RAMP_MS" .
  show "running_at (ctx_after c3 (steady 3 2485)) 2488 (- LIMIT_POS) 0 DWELL_MS (RAMP_MS - 1)"
    using tick_clamp_lo[OF r2487 dn] steady_split[of c3 3 2484 1] by (simp add: knobs)
  have "pinned_low (ctx_after c3 (steady 3 1984)) 1987"
    unfolding pinned_low_def using r1987 by (auto simp: knobs)
  from pinned_low_forever[OF this, of m]
  show "sint (pos_tgt (ctx_after c3 (steady 3 (1984 + m)))) = - LIMIT_POS"
    unfolding steady_split[of c3 3 1984 m] by (auto simp: pinned_low_def running_at_def)
qed

text \<open>
  C2 (the code departs from it). The drive is enabled standing at 200000 counts and then
  reports \<open>Operation enabled\<close> with one call per millisecond. At the upper limit the claim
  holds: the first producer tick (time 4) clamps the target at \<open>+LIMIT_POS\<close> and starts
  the dwell; \<open>DWELL_MS\<close> ticks later (time 504) the target is still \<open>+LIMIT_POS\<close> and the
  direction is \<open>-1\<close>, the target is \<open>+LIMIT_POS\<close> after each tick in between, and the next
  tick moves the target down. At the lower limit it does
  not: the target is clamped at \<open>-LIMIT_POS\<close> at time 1987; \<open>DWELL_MS\<close> ticks later (time
  2487) the direction is \<open>-1\<close> again, not \<open>+1\<close>, since the clamp has overwritten the
  direction with 0 and the resume statement turns 0 into \<open>-1\<close>; the next tick steps below
  the limit and is clamped again with a new dwell; and the running target, which is what
  every producer tick writes, is \<open>-LIMIT_POS\<close> after every later tick.
\<close>

theorem dwell_reversal_stuck_at_lower_limit:
  "running_at (ctx_after ctx0 (enable_at 200000 @ steady 3 1)) 4 LIMIT_POS 0 DWELL_MS (RAMP_MS - 1) \<and>
   running_at (ctx_after ctx0 (enable_at 200000 @ steady 3 501)) 504 LIMIT_POS (- 1) 0 RAMP_MS \<and>
   running_at (ctx_after ctx0 (enable_at 200000 @ steady 3 502)) 505
      (LIMIT_POS - 1) (- 1) 0 (RAMP_MS - 1) \<and>
   running_at (ctx_after ctx0 (enable_at 200000 @ steady 3 1984)) 1987 (- LIMIT_POS) 0 DWELL_MS 0 \<and>
   running_at (ctx_after ctx0 (enable_at 200000 @ steady 3 2484)) 2487 (- LIMIT_POS) (- 1) 0 RAMP_MS \<and>
   running_at (ctx_after ctx0 (enable_at 200000 @ steady 3 2485)) 2488
      (- LIMIT_POS) 0 DWELL_MS (RAMP_MS - 1) \<and>
   sint (pos_tgt (ctx_after ctx0 (enable_at 200000 @ steady 3 (1 + min k 500)))) = LIMIT_POS \<and>
   sint (pos_tgt (ctx_after ctx0 (enable_at 200000 @ steady 3 (1984 + m)))) = - LIMIT_POS"
  using stuck_trace(1-6) stuck_trace(7) [of m] stuck_trace(8) [of k]
  by (simp add: ctx_after_append)

subsection \<open>Further facts\<close>

text \<open>
  On every trace of ticks from the initial statics the statics stay in range: the stage
  is 0..3, the direction -1..1 and 0 only while a dwell is counting, the dwell and ramp
  countdowns are within \<open>0..DWELL_MS\<close> and \<open>0..RAMP_MS\<close>, the two latches are 0 or 1, both
  cooldown counters are 0 and the handshake bit is 0 or \<open>0x0010\<close>.
\<close>

theorem statics_in_range: "ctx_wf (ctx_after ctx0 ticks)"
  by (rule ctx_wf_ctx_after[OF ctx_wf_ctx0])

theorem statics_in_range_witness:
  "dir (ctx_after ctx0 (enable_at 200000 @ steady 3 1)) = 0 \<and>
   0 < dwell_rem (ctx_after ctx0 (enable_at 200000 @ steady 3 1)) \<and>
   ctx_wf (ctx_after ctx0 (enable_at 200000 @ steady 3 1))"
  using statics_in_range [of "enable_at 200000 @ steady 3 1"] stuck_trace(1)
  by (simp add: ctx_after_append running_at_def knobs)

text \<open>
  With the \<open>map_io\<close> body the source ships, \<open>ServoTemplate_Init\<close> leaves both pointers \<open>NULL\<close>
  whatever its arguments, and every later call of \<open>ServoTemplate_Run\<close> does nothing.
\<close>

theorem shipped_template_is_noop:
  "g_in (fst (snd (ServoTemplate_Init map_io_stub ib ob io oo w))) = None \<and>
   g_out (fst (snd (ServoTemplate_Init map_io_stub ib ob io oo w))) = None \<and>
   Run_calls (fst (snd (ServoTemplate_Init map_io_stub ib ob io oo w))) nows
     = (fst (snd (ServoTemplate_Init map_io_stub ib ob io oo w)), [])"
proof -
  have "g_in (fst (snd (ServoTemplate_Init map_io_stub ib ob io oo w))) = None \<and>
        g_out (fst (snd (ServoTemplate_Init map_io_stub ib ob io oo w))) = None"
    by (simp add: ServoTemplate_Init_def map_io_stub_def Let_def)
  then show ?thesis by (simp add: Run_calls_unmapped)
qed

end
